theory Spec2Isabelle
  imports Complex_Main
begin

section \<open>Values shared by the services\<close>

text \<open>
  A thrown JavaScript \<^verbatim>\<open>Error\<close> is represented by its message. An asynchronous method
  that may throw returns \<open>error + 'a\<close> together with the process state it leaves behind.
  A string is held as the bytes of its UTF-8 encoding: a text of ASCII characters is the
  list of its characters, and a character outside ASCII is a sequence of two to four bytes.
\<close>

datatype error = Error string

datatype json =
    JNull
  | JBool bool
  | JNum rat
  | JStr string
  | JArr "json list"
  | JObj "(string \<times> json) list"

text \<open>JavaScript truthiness of a value; \<open>None\<close> stands for \<^verbatim>\<open>undefined\<close>.\<close>

fun truthy :: "json \<Rightarrow> bool" where
  "truthy JNull = False"
| "truthy (JBool b) = b"
| "truthy (JNum n) = (n \<noteq> 0)"
| "truthy (JStr s) = (s \<noteq> [])"
| "truthy (JArr xs) = True"
| "truthy (JObj kvs) = True"

definition truthy_opt :: "json option \<Rightarrow> bool" where
  "truthy_opt v = (case v of None \<Rightarrow> False | Some j \<Rightarrow> truthy j)"

text \<open>\<^verbatim>\<open>a || b\<close> on optional values.\<close>

definition or_else :: "json option \<Rightarrow> json option \<Rightarrow> json option" where
  "or_else a b = (if truthy_opt a then a else b)"

text \<open>\<^verbatim>\<open>v?.key\<close>: property access that yields \<^verbatim>\<open>undefined\<close> on a missing object.\<close>

definition get_field :: "json option \<Rightarrow> string \<Rightarrow> json option" where
  "get_field v key = (case v of Some (JObj kvs) \<Rightarrow> map_of kvs key | _ \<Rightarrow> None)"

text \<open>
  The white space of \<^verbatim>\<open>String.prototype.trim\<close> and of \<^verbatim>\<open>\s\<close> in a regular expression, by
  the length of the encoding: U+0009 to U+000D and U+0020 in one byte; U+00A0 in two;
  U+1680, U+2000 to U+200A, U+2028, U+2029, U+202F, U+205F, U+3000 and U+FEFF in three.
\<close>

definition white_space_1 :: "char \<Rightarrow> bool" where
  "white_space_1 a = (a \<in> set [CHR 0x09, CHR 0x0A, CHR 0x0B, CHR 0x0C, CHR 0x0D, CHR 0x20])"

definition white_space_2 :: "char \<Rightarrow> char \<Rightarrow> bool" where
  "white_space_2 a b = (a = CHR 0xC2 \<and> b = CHR 0xA0)"

definition white_space_3 :: "char \<Rightarrow> char \<Rightarrow> char \<Rightarrow> bool" where
  "white_space_3 a b c =
     ((a = CHR 0xE1 \<and> b = CHR 0x9A \<and> c = CHR 0x80)
      \<or> (a = CHR 0xE2 \<and> b = CHR 0x80
          \<and> c \<in> set [CHR 0x80, CHR 0x81, CHR 0x82, CHR 0x83, CHR 0x84, CHR 0x85, CHR 0x86,
                      CHR 0x87, CHR 0x88, CHR 0x89, CHR 0x8A, CHR 0xA8, CHR 0xA9, CHR 0xAF])
      \<or> (a = CHR 0xE2 \<and> b = CHR 0x81 \<and> c = CHR 0x9F)
      \<or> (a = CHR 0xE3 \<and> b = CHR 0x80 \<and> c = CHR 0x80)
      \<or> (a = CHR 0xEF \<and> b = CHR 0xBB \<and> c = CHR 0xBF))"

text \<open>\<open>skip_white_space s\<close> is \<open>s\<close> without the white space it starts with.\<close>

fun skip_white_space :: "string \<Rightarrow> string" where
  "skip_white_space (a # b # c # s) =
     (if white_space_1 a then skip_white_space (b # c # s)
      else if white_space_2 a b then skip_white_space (c # s)
      else if white_space_3 a b c then skip_white_space s
      else a # b # c # s)"
| "skip_white_space [a, b] =
     (if white_space_1 a then skip_white_space [b]
      else if white_space_2 a b then []
      else [a, b])"
| "skip_white_space [a] = (if white_space_1 a then [] else [a])"
| "skip_white_space [] = []"

text \<open>
  The same from the end of a text, which is given reversed: \<open>skip_white_space_back r\<close> is
  \<open>r\<close> without the white space that the text ends with.
\<close>

fun skip_white_space_back :: "string \<Rightarrow> string" where
  "skip_white_space_back (c # b # a # r) =
     (if white_space_1 c then skip_white_space_back (b # a # r)
      else if white_space_2 b c then skip_white_space_back (a # r)
      else if white_space_3 a b c then skip_white_space_back r
      else c # b # a # r)"
| "skip_white_space_back [c, b] =
     (if white_space_1 c then skip_white_space_back [b]
      else if white_space_2 b c then []
      else [c, b])"
| "skip_white_space_back [c] = (if white_space_1 c then [] else [c])"
| "skip_white_space_back [] = []"

definition trim :: "string \<Rightarrow> string" where
  "trim s = rev (skip_white_space_back (rev (skip_white_space s)))"

text \<open>
  \<^verbatim>\<open>String.prototype.toUpperCase\<close>, as far as a comparison of its result with a word of ASCII
  letters can tell: the letters \<open>a\<close> to \<open>z\<close>, and the ten characters outside ASCII whose upper
  case is made of ASCII letters only, are mapped: U+00DF to SS, U+0131 to I, U+017F (long s)
  to S, and the ligatures U+FB00 to U+FB06 to FF, FI, FL, FFI, FFL, ST and ST. The upper case
  of any other character outside ASCII has a character outside ASCII; such a character is
  kept as it is.
\<close>

definition toUpperCase_1 :: "char \<Rightarrow> char" where
  "toUpperCase_1 a =
     (case map_of (zip ''abcdefghijklmnopqrstuvwxyz'' ''ABCDEFGHIJKLMNOPQRSTUVWXYZ'') a of
        Some u \<Rightarrow> u
      | None \<Rightarrow> a)"

definition toUpperCase_2 :: "char \<Rightarrow> char \<Rightarrow> string option" where
  "toUpperCase_2 a b =
     (if a = CHR 0xC3 \<and> b = CHR 0x9F then Some ''SS''
      else if a = CHR 0xC4 \<and> b = CHR 0xB1 then Some ''I''
      else if a = CHR 0xC5 \<and> b = CHR 0xBF then Some ''S''
      else None)"

definition toUpperCase_3 :: "char \<Rightarrow> char \<Rightarrow> char \<Rightarrow> string option" where
  "toUpperCase_3 a b c =
     (if a = CHR 0xEF \<and> b = CHR 0xAC
      then map_of [(CHR 0x80, ''FF''), (CHR 0x81, ''FI''), (CHR 0x82, ''FL''), (CHR 0x83, ''FFI''),
                   (CHR 0x84, ''FFL''), (CHR 0x85, ''ST''), (CHR 0x86, ''ST'')] c
      else None)"

fun toUpperCase :: "string \<Rightarrow> string" where
  "toUpperCase (a # b # c # s) =
     (case toUpperCase_3 a b c of
        Some u \<Rightarrow> u @ toUpperCase s
      | None \<Rightarrow>
          (case toUpperCase_2 a b of
             Some u \<Rightarrow> u @ toUpperCase (c # s)
           | None \<Rightarrow> toUpperCase_1 a # toUpperCase (b # c # s)))"
| "toUpperCase [a, b] =
     (case toUpperCase_2 a b of
        Some u \<Rightarrow> u
      | None \<Rightarrow> toUpperCase_1 a # toUpperCase [b])"
| "toUpperCase [a] = [toUpperCase_1 a]"
| "toUpperCase [] = []"

text \<open>\<open>strip_prefix p s\<close> is the rest of \<open>s\<close> after its prefix \<open>p\<close>, if \<open>s\<close> starts with \<open>p\<close>.\<close>

fun strip_prefix :: "string \<Rightarrow> string \<Rightarrow> string option" where
  "strip_prefix [] s = Some s"
| "strip_prefix (p # ps) [] = None"
| "strip_prefix (p # ps) (c # cs) = (if p = c then strip_prefix ps cs else None)"

text \<open>
  Sequencing of asynchronous calls: \<open>await r k\<close> continues with \<open>k\<close> on the value and state
  of \<open>r\<close>, and propagates what \<open>r\<close> threw. \<open>try_catch r h\<close> is a \<^verbatim>\<open>try { r } catch (e) { h }\<close>.
\<close>

definition await :: "(error + 'a) \<times> 's \<Rightarrow> ('a \<Rightarrow> 's \<Rightarrow> (error + 'b) \<times> 's) \<Rightarrow> (error + 'b) \<times> 's" where
  "await r k = (case r of (Inl e, s) \<Rightarrow> (Inl e, s) | (Inr v, s) \<Rightarrow> k v s)"

definition try_catch :: "(error + 'a) \<times> 's \<Rightarrow> (error \<Rightarrow> 's \<Rightarrow> (error + 'a) \<times> 's) \<Rightarrow> (error + 'a) \<times> 's" where
  "try_catch r h = (case r of (Inl e, s) \<Rightarrow> h e s | (Inr v, s) \<Rightarrow> (Inr v, s))"

section \<open>Data of the pipeline\<close>

subsection \<open>Model gateway requests\<close>

datatype ModelType = model_text | model_text_fast | model_vision | model_vision_fast | model_audio

datatype role = system | user | assistant

text \<open>
  \<^verbatim>\<open>options.responseFormat\<close>: the loose JSON-object mode, or a named strict schema
  \<open>json_schema name strict schema\<close>.
\<close>

datatype response_format = json_object | json_schema string bool json

text \<open>The parameters of one chat-completion request, as \<^verbatim>\<open>requestParams\<close> holds them.\<close>

record chat_request =
  model :: string
  messages :: "(role \<times> string) list"
  temperature :: rat
  max_tokens :: nat
  response_format :: "response_format option"

text \<open>
  The provider's answer. A choice is \<open>None\<close> when it carries no message, and \<open>Some None\<close>
  when the message has no content.
\<close>

record chat_completion =
  choices :: "string option option list"
  completion_model :: string

record AIResponse =
  content :: string
  response_model :: string

subsection \<open>Prompts\<close>

record prompt_data =
  prompt :: string
  config :: "json option"

record cache_entry = prompt_data +
  timestamp :: int

subsection \<open>Generated analytics query\<close>

text \<open>
  \<^verbatim>\<open>GeneratedQuery\<close>. The query type is the string found at run time; the six literals of
  the TypeScript type are what the schema lets through.
\<close>

record GeneratedQuery =
  query_type :: string
  sort_order :: "string option"
  limit :: "rat option"
  time_period :: string
  filters :: "json option"
  include_archived :: bool
  credit_card_account_id :: "rat option"

subsection \<open>Accounts, categories, transactions\<close>

datatype AccountType = BANK | CRYPTO | CREDIT_CARD

datatype Currency = EUR | USDC | ARS | USD

datatype TransactionType = INCOME | TRANSFER | EXPENSE | CREDIT_CARD_PAYMENT

text \<open>
  A \<^verbatim>\<open>Date\<close> by its local calendar fields: year, month index (0 is January) and day of
  the month. The time of day is not represented.
\<close>

datatype js_date = InvalidDate | Date int nat nat

record Account =
  account_id :: nat
  account_name :: string
  account_type :: AccountType
  account_currency :: Currency

record Category =
  category_id :: nat
  category_name :: string

record CreateTransactionDTO =
  tx_date :: js_date
  tx_description :: string
  tx_fromAccountId :: "nat option"
  tx_toAccountId :: "nat option"
  tx_fromAmount :: "rat option"
  tx_toAmount :: rat
  tx_fromCurrency :: "Currency option"
  tx_toCurrency :: Currency
  tx_categoryId :: "nat option"
  tx_type :: TransactionType

record CreateCreditCardPurchaseDTO =
  creditCardAccountId :: nat
  date :: js_date
  description :: string
  amount :: rat
  currency :: Currency
  categoryId :: "nat option"
  installmentNumber :: nat
  totalInstallments :: nat
  purchaseGroupId :: string

record CreateFullCreditCardPurchaseDTO =
  full_creditCardAccountId :: nat
  full_date :: js_date
  full_description :: string
  totalAmount :: rat
  full_currency :: Currency
  full_categoryId :: "nat option"
  full_totalInstallments :: nat

subsection \<open>Parsed transaction\<close>

datatype ParsedType = income | transfer | expense | credit_card_payment | credit_card_purchase

text \<open>A field of type \<^verbatim>\<open>string | null | undefined\<close>.\<close>

datatype nullable_string = Undefined | Null | Str string

record ExpenseParserResult =
  parsed_type :: ParsedType
  parsed_description :: string
  parsed_amount :: rat
  fromAccount :: nullable_string
  toAccount :: nullable_string
  category :: nullable_string
  parsed_currency :: Currency
  parsed_date :: string
  installments :: nat
  fromAmount :: "rat option"
  toAmount :: "rat option"
  confidence :: rat

subsection \<open>Intent decision\<close>

datatype Intent =
    track_expense | track_income | query_balance | query_transactions
  | query_report | archive_transaction | general_chat | unknown

record OrchestratorDecision =
  intent :: Intent
  decision_confidence :: rat
  reasoning :: "string option"

section \<open>The process and its collaborators\<close>

text \<open>What the bot sends back on the chat transport, by kind of message.\<close>

datatype reply =
    CouldNotUnderstand
  | NotConfident rat
  | WhichAccount "Account list"
  | TransactionRecorded ParsedType nat
  | ErrorProcessing string

text \<open>
  The effects a call has on its collaborators, in the order they happen: a fetch from the
  prompt store, a chat-completion request, a read-only aggregation of a repository, a row
  inserted by a repository, a message on the chat transport.
\<close>

datatype event =
    LangfuseGetPrompt string "nat option"
  | ChatCompletionsCreate chat_request
  | RepositoryRead string GeneratedQuery
  | TransactionCreate CreateTransactionDTO
  | CreditCardCreate CreateCreditCardPurchaseDTO
  | ReplyWithChatAction
  | Reply reply

text \<open>
  The collaborators, as the answers they give. The prompt store, the model provider and the
  identifier generator may answer differently at each call, so they see the effects so far;
  \<open>clock k\<close> is what the \<open>k\<close>-th reading of \<^verbatim>\<open>Date.now()\<close> returns. The tables of
  accounts and categories are not written by the pipeline; \<open>ilike pattern name\<close> is the
  database's \<^verbatim>\<open>ILIKE\<close>. The connection pool and the chat transport are taken to answer.
\<close>

record env =
  enabled :: bool
  langfuse_getPrompt :: "event list \<Rightarrow> string \<Rightarrow> nat option \<Rightarrow> error + prompt_data option"
  clock :: "nat \<Rightarrow> int"
  models :: "ModelType \<Rightarrow> string"
  completions_create :: "event list \<Rightarrow> chat_request \<Rightarrow> error + chat_completion"
  JSON_parse :: "string \<Rightarrow> error + json"
  JSON_stringify :: "GeneratedQuery \<Rightarrow> string"
  uuidv4 :: "event list \<Rightarrow> string"
  new_Date :: "string \<Rightarrow> js_date"
  accounts :: "Account list"
  categories :: "Category list"
  ilike :: "string \<Rightarrow> string \<Rightarrow> bool"
  aggregate :: "event list \<Rightarrow> string \<Rightarrow> GeneratedQuery \<Rightarrow> error + json"
  render :: "GeneratedQuery \<Rightarrow> json \<Rightarrow> string"

text \<open>
  The mutable state of the process: the prompt cache of the \<^verbatim>\<open>PromptManager\<close>, the number
  of clock readings made, the effects so far and the session's pending transaction.
\<close>

record world =
  promptCache :: "string \<Rightarrow> cache_entry option"
  ticks :: nat
  trace :: "event list"
  pendingTransaction :: "ExpenseParserResult option"

definition emit :: "event \<Rightarrow> world \<Rightarrow> world" where
  "emit ev w = w\<lparr>trace := trace w @ [ev]\<rparr>"

definition Date_now :: "env \<Rightarrow> world \<Rightarrow> int \<times> world" where
  "Date_now E w = (clock E (ticks w), w\<lparr>ticks := Suc (ticks w)\<rparr>)"

section \<open>LangfuseClient\<close>

text \<open>
  \<^verbatim>\<open>getPrompt(name, version?)\<close>. A version is passed on to the SDK only when it is truthy,
  so version \<open>0\<close> is fetched like no version.
\<close>

definition version_sent :: "nat option \<Rightarrow> nat option" where
  "version_sent version =
     (case version of Some n \<Rightarrow> (if n \<noteq> 0 then Some n else None) | None \<Rightarrow> None)"

definition LangfuseClient_getPrompt ::
  "env \<Rightarrow> string \<Rightarrow> nat option \<Rightarrow> world \<Rightarrow> (error + prompt_data option) \<times> world" where
  "LangfuseClient_getPrompt E name version w =
     (if \<not> enabled E then (Inr None, w)
      else
        try_catch
          (await (langfuse_getPrompt E (trace w) name (version_sent version),
                  emit (LangfuseGetPrompt name (version_sent version)) w)
             (\<lambda>promptData w1.
                case promptData of
                  None \<Rightarrow> (Inr None, w1)
                | Some pd \<Rightarrow> (Inr (Some \<lparr>prompt = prompt pd, config = config pd\<rparr>), w1)))
          (\<lambda>e w1. (Inr None, w1)))"

section \<open>PromptManager\<close>

definition cacheTTL :: int where
  "cacheTTL = 5 * 60 * 1000"

definition prompt_not_found :: "string \<Rightarrow> error" where
  "prompt_not_found name =
     Error (''Prompt '' @ [CHR 0x27] @ name @ [CHR 0x27] @
            '' not found or invalid in Langfuse. Please configure it correctly.'')"

text \<open>
  \<^verbatim>\<open>getPromptWithConfig(name, fallbackConfig?, version?)\<close>: the cache first, then the store;
  a store that is disabled, gives nothing, or gives an empty prompt text is an error.
\<close>

definition fetch_and_cache ::
  "env \<Rightarrow> string \<Rightarrow> json option \<Rightarrow> nat option \<Rightarrow> world \<Rightarrow> (error + prompt_data) \<times> world" where
  "fetch_and_cache E name fallbackConfig version w =
     (if enabled E then
        await (LangfuseClient_getPrompt E name version w)
          (\<lambda>result w1.
             case result of
               None \<Rightarrow> (Inl (prompt_not_found name), w1)
             | Some r \<Rightarrow>
                 if prompt r \<noteq> [] then
                   let finalConfig = or_else (config r) fallbackConfig;
                       (now, w2) = Date_now E w1;
                       dataToCache = \<lparr>prompt = prompt r, config = finalConfig, timestamp = now\<rparr>
                   in (Inr \<lparr>prompt = prompt dataToCache, config = config dataToCache\<rparr>,
                       w2\<lparr>promptCache := (promptCache w2)(name := Some dataToCache)\<rparr>)
                 else (Inl (prompt_not_found name), w1))
      else (Inl (prompt_not_found name), w))"

definition getPromptWithConfig ::
  "env \<Rightarrow> string \<Rightarrow> json option \<Rightarrow> nat option \<Rightarrow> world \<Rightarrow> (error + prompt_data) \<times> world" where
  "getPromptWithConfig E name fallbackConfig version w =
     (case promptCache w name of
        None \<Rightarrow> fetch_and_cache E name fallbackConfig version w
      | Some cached \<Rightarrow>
          let (now, w1) = Date_now E w
          in if now - timestamp cached < cacheTTL
             then (Inr \<lparr>prompt = prompt cached, config = config cached\<rparr>, w1)
             else fetch_and_cache E name fallbackConfig version w1)"

definition getPrompt :: "env \<Rightarrow> string \<Rightarrow> nat option \<Rightarrow> world \<Rightarrow> (error + string) \<times> world" where
  "getPrompt E name version w =
     await (getPromptWithConfig E name None version w)
       (\<lambda>promptData w1. (Inr (prompt promptData), w1))"

definition clearCache :: "world \<Rightarrow> world" where
  "clearCache w = w\<lparr>promptCache := (\<lambda>name. None)\<rparr>"

definition clearPromptCache :: "string \<Rightarrow> world \<Rightarrow> world" where
  "clearPromptCache name w = w\<lparr>promptCache := (promptCache w)(name := None)\<rparr>"

subsection \<open>compilePrompt\<close>

text \<open>
  The regular expression built for a key is \<^verbatim>\<open>\{\{\s*key\s*\}\}\<close>. For a key of word
  characters it matches two opening braces, white space, the key, white space and two
  closing braces; \<open>match_placeholder key s\<close> is the length of such a match at the start of
  \<open>s\<close>. Keys with characters that are special in a regular expression are outside this
  description.
\<close>

definition match_placeholder :: "string \<Rightarrow> string \<Rightarrow> nat option" where
  "match_placeholder key s =
     (case strip_prefix ''{{'' s of
        None \<Rightarrow> None
      | Some s1 \<Rightarrow>
          (case strip_prefix key (skip_white_space s1) of
             None \<Rightarrow> None
           | Some s2 \<Rightarrow>
               (case strip_prefix ''}}'' (skip_white_space s2) of
                  None \<Rightarrow> None
                | Some s3 \<Rightarrow> Some (length s - length s3))))"

text \<open>
  \<^verbatim>\<open>String.prototype.replace\<close> reads its replacement string as a template: with a pattern
  that has no capture groups, \<^verbatim>\<open>$$\<close> stands for a dollar sign, \<^verbatim>\<open>$&\<close> for the matched text,
  \<^verbatim>\<open>$`\<close> for the text before the match and \<^verbatim>\<open>$'\<close> for the text after it; every other
  character stands for itself.
\<close>

fun GetSubstitution :: "string \<Rightarrow> string \<Rightarrow> string \<Rightarrow> string \<Rightarrow> string" where
  "GetSubstitution matched preceding following [] = []"
| "GetSubstitution matched preceding following [c] = [c]"
| "GetSubstitution matched preceding following (c # d # r) =
     (if c = CHR ''$'' then
        (if d = CHR ''$'' then CHR ''$'' # GetSubstitution matched preceding following r
         else if d = CHR ''&'' then matched @ GetSubstitution matched preceding following r
         else if d = CHR 0x60 then preceding @ GetSubstitution matched preceding following r
         else if d = CHR 0x27 then following @ GetSubstitution matched preceding following r
         else c # GetSubstitution matched preceding following (d # r))
      else c # GetSubstitution matched preceding following (d # r))"

text \<open>
  A global replace scans the string from left to right. \<open>preceding\<close> is the text already
  passed and \<open>skip\<close> the number of characters still covered by the last match.
\<close>

fun replace_scan :: "string \<Rightarrow> string \<Rightarrow> string \<Rightarrow> nat \<Rightarrow> string \<Rightarrow> string" where
  "replace_scan key val preceding skip [] = []"
| "replace_scan key val preceding skip (c # cs) =
     (if 0 < skip then replace_scan key val (preceding @ [c]) (skip - 1) cs
      else
        (case match_placeholder key (c # cs) of
           None \<Rightarrow> c # replace_scan key val (preceding @ [c]) 0 cs
         | Some n \<Rightarrow>
             GetSubstitution (take n (c # cs)) preceding (drop n (c # cs)) val
             @ replace_scan key val (preceding @ [c]) (n - 1) cs))"

definition replace_placeholder :: "string \<Rightarrow> string \<Rightarrow> string \<Rightarrow> string" where
  "replace_placeholder key val s = replace_scan key val [] 0 s"

text \<open>\<^verbatim>\<open>compilePrompt(template, variables)\<close>, the variables in the order of their entries.\<close>

definition compilePrompt :: "string \<Rightarrow> (string \<times> string) list \<Rightarrow> string" where
  "compilePrompt template variables =
     foldl (\<lambda>compiled (key, val). replace_placeholder key val compiled) template variables"

section \<open>OpenRouterClient\<close>

definition code_fence :: string where
  "code_fence = [CHR 0x60, CHR 0x60, CHR 0x60]"

text \<open>
  \<^verbatim>\<open>stripMarkdownCodeFences\<close> first deletes every opening fence tagged \<^verbatim>\<open>json\<close> together
  with the white space after it, then a fence that is followed by white space only up to
  the end of the text, and trims the result.
\<close>

fun strip_open_fences :: "nat \<Rightarrow> string \<Rightarrow> string" where
  "strip_open_fences skip [] = []"
| "strip_open_fences skip (c # cs) =
     (if 0 < skip then strip_open_fences (skip - 1) cs
      else
        (case strip_prefix (code_fence @ ''json'') (c # cs) of
           None \<Rightarrow> c # strip_open_fences 0 cs
         | Some rest \<Rightarrow>
             strip_open_fences (6 + (length rest - length (skip_white_space rest))) cs))"

fun strip_close_fence :: "string \<Rightarrow> string" where
  "strip_close_fence [] = []"
| "strip_close_fence (c # cs) =
     (case strip_prefix code_fence (c # cs) of
        None \<Rightarrow> c # strip_close_fence cs
      | Some rest \<Rightarrow>
          if skip_white_space rest = [] then [] else c # strip_close_fence cs)"

definition stripMarkdownCodeFences :: "string \<Rightarrow> string" where
  "stripMarkdownCodeFences s = trim (strip_close_fence (strip_open_fences 0 s))"

definition getModel :: "env \<Rightarrow> ModelType \<Rightarrow> string" where
  "getModel E t = models E t"

record chat_options =
  opt_temperature :: "rat option"
  opt_maxTokens :: "nat option"
  opt_responseFormat :: "response_format option"

fun message :: "error \<Rightarrow> string" where
  "message (Error m) = m"

text \<open>
  \<^verbatim>\<open>chat(messages, model?, options)\<close>: one request; whatever fails inside is thrown again
  as one error that carries the message of the failure.
\<close>

definition requestParams ::
  "env \<Rightarrow> (role \<times> string) list \<Rightarrow> string option \<Rightarrow> chat_options \<Rightarrow> chat_request" where
  "requestParams E msgs mdl options =
     \<lparr>model = (case mdl of
                 Some m \<Rightarrow> (if m \<noteq> [] then m else models E model_text)
               | None \<Rightarrow> models E model_text),
      messages = msgs,
      temperature = (case opt_temperature options of Some t \<Rightarrow> t | None \<Rightarrow> 7 / 10),
      max_tokens = (case opt_maxTokens options of Some n \<Rightarrow> n | None \<Rightarrow> 2000),
      response_format = opt_responseFormat options\<rparr>"

definition chat ::
  "env \<Rightarrow> (role \<times> string) list \<Rightarrow> string option \<Rightarrow> chat_options \<Rightarrow> world
     \<Rightarrow> (error + AIResponse) \<times> world" where
  "chat E msgs mdl options w =
     try_catch
       (await (completions_create E (trace w) (requestParams E msgs mdl options),
               emit (ChatCompletionsCreate (requestParams E msgs mdl options)) w)
          (\<lambda>response w1.
             case choices response of
               [] \<Rightarrow> (Inl (Error ''No response from AI model''), w1)
             | None # others \<Rightarrow> (Inl (Error ''No response from AI model''), w1)
             | Some message_content # others \<Rightarrow>
                 let txt = (case message_content of Some c \<Rightarrow> c | None \<Rightarrow> [])
                 in (Inr \<lparr>content =
                             (if opt_responseFormat options \<noteq> None
                              then stripMarkdownCodeFences txt else txt),
                           response_model = completion_model response\<rparr>, w1)))
       (\<lambda>e w1. (Inl (Error (''AI request failed: '' @ message e)), w1))"

section \<open>TextProcessor\<close>

record TextProcessingOptions =
  tp_model :: "string option"
  systemPrompt :: "string option"
  tp_temperature :: "rat option"
  tp_maxTokens :: "nat option"

definition processText ::
  "env \<Rightarrow> string \<Rightarrow> TextProcessingOptions \<Rightarrow> world \<Rightarrow> (error + AIResponse) \<times> world" where
  "processText E userMessage options w =
     (let msgs = (case systemPrompt options of
                    Some sp \<Rightarrow> (if sp \<noteq> [] then [(system, sp)] else [])
                  | None \<Rightarrow> [])
                 @ [(user, userMessage)];
          mdl = (case tp_model options of
                   Some m \<Rightarrow> (if m \<noteq> [] then m else getModel E model_text)
                 | None \<Rightarrow> getModel E model_text)
      in chat E msgs (Some mdl)
           \<lparr>opt_temperature = tp_temperature options,
            opt_maxTokens = tp_maxTokens options,
            opt_responseFormat = None\<rparr> w)"

text \<open>
  \<^verbatim>\<open>extractStructured(text, systemPrompt, jsonSchema, zodSchema)\<close>: one schema-constrained
  request, then fence stripping, \<^verbatim>\<open>JSON.parse\<close> and the validator \<open>zodSchema\<close>.
\<close>

definition extractStructured ::
  "env \<Rightarrow> string \<Rightarrow> string \<Rightarrow> string \<times> json \<Rightarrow> (json \<Rightarrow> error + 'a) \<Rightarrow> world
     \<Rightarrow> (error + 'a) \<times> world" where
  "extractStructured E txt sysPrompt jsonSchema zodSchema w =
     await (chat E [(system, sysPrompt), (user, txt)] (Some (getModel E model_text_fast))
              \<lparr>opt_temperature = Some (2 / 10),
               opt_maxTokens = Some 1000,
               opt_responseFormat = Some (json_schema (fst jsonSchema) True (snd jsonSchema))\<rparr> w)
       (\<lambda>response w1.
          let cleanedContent = stripMarkdownCodeFences (content response)
          in await (JSON_parse E cleanedContent, w1)
               (\<lambda>parsed w2. (zodSchema parsed, w2)))"

section \<open>Schemas\<close>

text \<open>
  The validators, field by field. A field validator reads the value found under a key
  (\<open>None\<close> when the key is absent) and gives \<open>None\<close> when the value is rejected; keys
  the schema does not name are dropped. The JSON schemas sent to the provider are given by
  their structure, without the description texts of the query and expense schemas.
\<close>

definition ZodError :: error where
  "ZodError = Error ''ZodError''"

definition z_enum :: "string list \<Rightarrow> json option \<Rightarrow> string option" where
  "z_enum allowed v =
     (case v of Some (JStr s) \<Rightarrow> (if s \<in> set allowed then Some s else None) | _ \<Rightarrow> None)"

definition z_string :: "json option \<Rightarrow> string option" where
  "z_string v = (case v of Some (JStr s) \<Rightarrow> Some s | _ \<Rightarrow> None)"

definition z_number :: "json option \<Rightarrow> rat option" where
  "z_number v = (case v of Some (JNum n) \<Rightarrow> Some n | _ \<Rightarrow> None)"

definition z_boolean :: "json option \<Rightarrow> bool option" where
  "z_boolean v = (case v of Some (JBool b) \<Rightarrow> Some b | _ \<Rightarrow> None)"

definition z_record :: "json option \<Rightarrow> json option" where
  "z_record v = (case v of Some (JObj kvs) \<Rightarrow> Some (JObj kvs) | _ \<Rightarrow> None)"

definition z_refine :: "('a \<Rightarrow> bool) \<Rightarrow> 'a option \<Rightarrow> 'a option" where
  "z_refine ok r = (case r of Some x \<Rightarrow> (if ok x then Some x else None) | None \<Rightarrow> None)"

definition z_optional :: "(json option \<Rightarrow> 'a option) \<Rightarrow> json option \<Rightarrow> 'a option option" where
  "z_optional p v = (case v of None \<Rightarrow> Some None | Some j \<Rightarrow> map_option Some (p v))"

definition z_nullable_optional :: "(json option \<Rightarrow> string option) \<Rightarrow> json option \<Rightarrow> nullable_string option" where
  "z_nullable_optional p v =
     (case v of None \<Rightarrow> Some Undefined | Some JNull \<Rightarrow> Some Null | Some j \<Rightarrow> map_option Str (p v))"

definition z_default :: "'a \<Rightarrow> 'a option option \<Rightarrow> 'a option" where
  "z_default d r = (case r of None \<Rightarrow> None | Some None \<Rightarrow> Some d | Some (Some x) \<Rightarrow> Some x)"

definition is_int :: "rat \<Rightarrow> bool" where
  "is_int r = (r = of_int \<lfloor>r\<rfloor>)"

definition z_int_positive :: "json option \<Rightarrow> rat option" where
  "z_int_positive v = z_refine (\<lambda>n. is_int n \<and> 0 < n) (z_number v)"

definition z_positive :: "json option \<Rightarrow> rat option" where
  "z_positive v = z_refine (\<lambda>n. 0 < n) (z_number v)"

subsection \<open>orchestrator.schema.ts\<close>

definition intent_names :: "(string \<times> Intent) list" where
  "intent_names =
     [(''track_expense'', track_expense), (''track_income'', track_income),
      (''query_balance'', query_balance), (''query_transactions'', query_transactions),
      (''query_report'', query_report), (''archive_transaction'', archive_transaction),
      (''general_chat'', general_chat), (''unknown'', unknown)]"

definition OrchestratorDecisionSchema :: "json \<Rightarrow> error + OrchestratorDecision" where
  "OrchestratorDecisionSchema j =
     (case j of
        JObj kvs \<Rightarrow>
          (case (z_enum (map fst intent_names) (map_of kvs ''intent''),
                 z_refine (\<lambda>n. 0 \<le> n \<and> n \<le> 1) (z_number (map_of kvs ''confidence'')),
                 z_optional z_string (map_of kvs ''reasoning'')) of
             (Some i, Some c, Some r) \<Rightarrow>
               (case map_of intent_names i of
                  Some i' \<Rightarrow> Inr \<lparr>intent = i', decision_confidence = c, reasoning = r\<rparr>
                | None \<Rightarrow> Inl ZodError)
           | _ \<Rightarrow> Inl ZodError)
      | _ \<Rightarrow> Inl ZodError)"

definition getOrchestratorJSONSchema :: json where
  "getOrchestratorJSONSchema =
     JObj [(''type'', JStr ''object''),
           (''properties'', JObj
              [(''intent'', JObj
                  [(''type'', JStr ''string''),
                   (''enum'', JArr (map (JStr \<circ> fst) intent_names)),
                   (''description'', JStr ''The detected intent from the user message'')]),
               (''confidence'', JObj
                  [(''type'', JStr ''number''), (''minimum'', JNum 0), (''maximum'', JNum 1),
                   (''description'', JStr ''Confidence score between 0 and 1'')]),
               (''reasoning'', JObj
                  [(''type'', JStr ''string''),
                   (''description'', JStr ''Brief explanation of the classification decision'')])]),
           (''required'', JArr [JStr ''intent'', JStr ''confidence'']),
           (''additionalProperties'', JBool False)]"

subsection \<open>query-generator.schema.ts\<close>

definition query_types :: "string list" where
  "query_types =
     [''rank_accounts_by_expense'', ''total_spending_by_category'',
      ''count_archived_transactions'', ''count_remaining_installments'',
      ''total_credit_card_debt'', ''rank_accounts_by_transaction_count'']"

definition time_periods :: "string list" where
  "time_periods = [''today'', ''this_week'', ''this_month'', ''this_year'', ''all_time'']"

definition QueryGeneratorSchema :: "json \<Rightarrow> error + GeneratedQuery" where
  "QueryGeneratorSchema j =
     (case j of
        JObj kvs \<Rightarrow>
          (case (z_enum query_types (map_of kvs ''query_type''),
                 z_optional (z_enum [''asc'', ''desc'']) (map_of kvs ''sort_order''),
                 z_optional z_int_positive (map_of kvs ''limit''),
                 z_default ''all_time'' (z_optional (z_enum time_periods) (map_of kvs ''time_period'')),
                 z_optional z_record (map_of kvs ''filters''),
                 z_default False (z_optional z_boolean (map_of kvs ''include_archived'')),
                 z_optional z_int_positive (map_of kvs ''credit_card_account_id'')) of
             (Some qt, Some so, Some li, Some tp, Some fs, Some ia, Some cc) \<Rightarrow>
               Inr \<lparr>query_type = qt, sort_order = so, limit = li, time_period = tp,
                    filters = fs, include_archived = ia, credit_card_account_id = cc\<rparr>
           | _ \<Rightarrow> Inl ZodError)
      | _ \<Rightarrow> Inl ZodError)"

definition getQueryGeneratorJSONSchema :: json where
  "getQueryGeneratorJSONSchema =
     JObj [(''type'', JStr ''object''),
           (''properties'', JObj
              [(''query_type'', JObj
                  [(''type'', JStr ''string''), (''enum'', JArr (map JStr query_types)),
                   (''description'', JStr ''The type of query to perform'')]),
               (''sort_order'', JObj
                  [(''type'', JStr ''string''), (''enum'', JArr [JStr ''asc'', JStr ''desc''])]),
               (''limit'', JObj [(''type'', JStr ''number'')]),
               (''time_period'', JObj
                  [(''type'', JStr ''string''), (''enum'', JArr (map JStr time_periods))]),
               (''filters'', JObj [(''type'', JStr ''object'')]),
               (''include_archived'', JObj [(''type'', JStr ''boolean'')]),
               (''credit_card_account_id'', JObj [(''type'', JStr ''number'')])]),
           (''required'', JArr [JStr ''query_type'']),
           (''additionalProperties'', JBool False)]"

subsection \<open>expense-parser.schema.ts\<close>

definition parsed_type_names :: "(string \<times> ParsedType) list" where
  "parsed_type_names =
     [(''income'', income), (''transfer'', transfer), (''expense'', expense),
      (''credit_card_payment'', credit_card_payment),
      (''credit_card_purchase'', credit_card_purchase)]"

definition currency_names :: "(string \<times> Currency) list" where
  "currency_names = [(''EUR'', EUR), (''USDC'', USDC), (''ARS'', ARS), (''USD'', USD)]"

definition isDigit :: "char \<Rightarrow> bool" where
  "isDigit c = (c \<in> set ''0123456789'')"

text \<open>The pattern \<^verbatim>\<open>^\d{4}-\d{2}-\d{2}$\<close>.\<close>

definition date_format :: "string \<Rightarrow> bool" where
  "date_format s =
     (case s of
        [y1, y2, y3, y4, s1, m1, m2, s2, d1, d2] \<Rightarrow>
          list_all isDigit [y1, y2, y3, y4, m1, m2, d1, d2] \<and> s1 = CHR ''-'' \<and> s2 = CHR ''-''
      | _ \<Rightarrow> False)"

definition ExpenseParserSchema :: "json \<Rightarrow> error + ExpenseParserResult" where
  "ExpenseParserSchema j =
     (case j of
        JObj kvs \<Rightarrow>
          (case (z_enum (map fst parsed_type_names) (map_of kvs ''type''),
                 z_string (map_of kvs ''description''),
                 z_positive (map_of kvs ''amount''),
                 z_nullable_optional z_string (map_of kvs ''fromAccount''),
                 z_nullable_optional z_string (map_of kvs ''toAccount''),
                 z_nullable_optional z_string (map_of kvs ''category'')) of
             (Some ty, Some de, Some am, Some fa, Some ta, Some ca) \<Rightarrow>
               (case (z_enum (map fst currency_names) (map_of kvs ''currency''),
                      z_refine date_format (z_string (map_of kvs ''date'')),
                      z_default 1 (z_optional z_int_positive (map_of kvs ''installments'')),
                      z_optional z_positive (map_of kvs ''fromAmount''),
                      z_optional z_positive (map_of kvs ''toAmount''),
                      z_refine (\<lambda>n. 0 \<le> n \<and> n \<le> 100) (z_number (map_of kvs ''confidence''))) of
                  (Some cu, Some da, Some ins, Some fam, Some tam, Some co) \<Rightarrow>
                    (case (map_of parsed_type_names ty, map_of currency_names cu) of
                       (Some ty', Some cu') \<Rightarrow>
                         Inr \<lparr>parsed_type = ty', parsed_description = de, parsed_amount = am,
                              fromAccount = fa, toAccount = ta, category = ca,
                              parsed_currency = cu', parsed_date = da,
                              installments = nat \<lfloor>ins\<rfloor>, fromAmount = fam, toAmount = tam,
                              confidence = co\<rparr>
                     | _ \<Rightarrow> Inl ZodError)
                | _ \<Rightarrow> Inl ZodError)
           | _ \<Rightarrow> Inl ZodError)
      | _ \<Rightarrow> Inl ZodError)"

definition getExpenseParserJSONSchema :: json where
  "getExpenseParserJSONSchema =
     JObj [(''type'', JStr ''object''),
           (''properties'', JObj
              [(''type'', JObj
                  [(''type'', JStr ''string''),
                   (''enum'', JArr (map (JStr \<circ> fst) parsed_type_names))]),
               (''description'', JObj [(''type'', JStr ''string'')]),
               (''amount'', JObj
                  [(''type'', JStr ''number''), (''minimum'', JNum 0),
                   (''exclusiveMinimum'', JBool True)]),
               (''fromAccount'', JObj [(''type'', JArr [JStr ''string'', JStr ''null''])]),
               (''toAccount'', JObj [(''type'', JArr [JStr ''string'', JStr ''null''])]),
               (''category'', JObj [(''type'', JArr [JStr ''string'', JStr ''null''])]),
               (''currency'', JObj
                  [(''type'', JStr ''string''),
                   (''enum'', JArr (map (JStr \<circ> fst) currency_names))]),
               (''date'', JObj [(''type'', JStr ''string'')]),
               (''installments'', JObj [(''type'', JStr ''number''), (''minimum'', JNum 1)]),
               (''fromAmount'', JObj
                  [(''type'', JStr ''number''), (''minimum'', JNum 0),
                   (''exclusiveMinimum'', JBool True)]),
               (''toAmount'', JObj
                  [(''type'', JStr ''number''), (''minimum'', JNum 0),
                   (''exclusiveMinimum'', JBool True)]),
               (''confidence'', JObj
                  [(''type'', JStr ''number''), (''minimum'', JNum 0), (''maximum'', JNum 100)])]),
           (''required'', JArr [JStr ''type'', JStr ''description'', JStr ''amount'',
                                JStr ''currency'', JStr ''date'', JStr ''confidence'']),
           (''additionalProperties'', JBool False)]"

text \<open>\<^verbatim>\<open>promptData.config?.schema || fallback\<close>.\<close>

definition schema_or :: "json option \<Rightarrow> json \<Rightarrow> json" where
  "schema_or cfg fallback =
     (case get_field cfg ''schema'' of
        Some j \<Rightarrow> (if truthy j then j else fallback)
      | None \<Rightarrow> fallback)"

text \<open>The fallback object the callers pass to \<^verbatim>\<open>getPromptWithConfig\<close>.\<close>

definition fallback_config :: "json \<Rightarrow> json option" where
  "fallback_config schema = Some (JObj [(''config'', JObj [(''schema'', schema)])])"

section \<open>Orchestrator\<close>

definition failed_to_analyze :: OrchestratorDecision where
  "failed_to_analyze =
     \<lparr>intent = unknown, decision_confidence = 0, reasoning = Some ''Failed to analyze intent''\<rparr>"

text \<open>The options of the classification request, and the body of the \<^verbatim>\<open>try\<close> block.\<close>

definition intent_options :: "json \<Rightarrow> chat_options" where
  "intent_options schema =
     \<lparr>opt_temperature = Some (1 / 10),
      opt_maxTokens = Some 500,
      opt_responseFormat = Some (json_schema ''orchestrator_decision'' True schema)\<rparr>"

definition analyzeIntent_body ::
  "env \<Rightarrow> string \<Rightarrow> world \<Rightarrow> (error + OrchestratorDecision) \<times> world" where
  "analyzeIntent_body E userMessage w =
     await (getPromptWithConfig E ''orchestrator-intent''
              (fallback_config getOrchestratorJSONSchema) None w)
       (\<lambda>promptData w1.
          let schema = schema_or (config promptData) getOrchestratorJSONSchema
          in await (chat E [(system, prompt promptData), (user, userMessage)]
                      (Some (getModel E model_text_fast)) (intent_options schema) w1)
               (\<lambda>response w2.
                  let cleanedContent = stripMarkdownCodeFences (content response)
                  in await (JSON_parse E cleanedContent, w2)
                       (\<lambda>parsed w3. (OrchestratorDecisionSchema parsed, w3))))"

definition analyzeIntent ::
  "env \<Rightarrow> string \<Rightarrow> world \<Rightarrow> (error + OrchestratorDecision) \<times> world" where
  "analyzeIntent E userMessage w =
     try_catch (analyzeIntent_body E userMessage w) (\<lambda>e w1. (Inr failed_to_analyze, w1))"

section \<open>AnalyticsService\<close>

definition generateQuery ::
  "env \<Rightarrow> string \<Rightarrow> world \<Rightarrow> (error + GeneratedQuery) \<times> world" where
  "generateQuery E naturalLanguageQuery w =
     try_catch
       (await (getPromptWithConfig E ''query-generator''
                 (fallback_config getQueryGeneratorJSONSchema) None w)
          (\<lambda>promptData w1.
             let schema = schema_or (config promptData) getQueryGeneratorJSONSchema
             in extractStructured E naturalLanguageQuery (prompt promptData)
                  (''query_generator'', schema) QueryGeneratorSchema w1))
       (\<lambda>e w1.
          (Inl (Error ''Failed to generate a valid structured query from your request.''), w1))"

definition allowedQueryTypes :: "string list" where
  "allowedQueryTypes =
     [''rank_accounts_by_expense'',
      ''total_spending_by_category'',
      ''count_archived_transactions'',
      ''count_remaining_installments'',
      ''total_credit_card_debt'',
      ''rank_accounts_by_transaction_count'']"

definition validator_question :: string where
  "validator_question =
     ''Based on the rules in the system prompt, is the query safe? Respond with a single word: SAFE or DESTRUCTIVE.''"

text \<open>
  \<^verbatim>\<open>validateQuery(naturalLanguageQuery, generatedQuery)\<close>: the allow-list in code, then the
  judgement of the model.
\<close>

definition validateQuery ::
  "env \<Rightarrow> string \<Rightarrow> GeneratedQuery \<Rightarrow> world \<Rightarrow> (error + bool) \<times> world" where
  "validateQuery E naturalLanguageQuery generatedQuery w =
     (if query_type generatedQuery \<notin> set allowedQueryTypes then (Inr False, w)
      else
        await (getPrompt E ''query-validator'' None w)
          (\<lambda>promptTemplate w1.
             let sysPrompt =
                   compilePrompt promptTemplate
                     [(''user_request'', naturalLanguageQuery),
                      (''generated_query'', JSON_stringify E generatedQuery)]
             in await (processText E validator_question
                         \<lparr>tp_model = None, systemPrompt = Some sysPrompt,
                          tp_temperature = Some (1 / 10), tp_maxTokens = Some 10\<rparr> w1)
                  (\<lambda>validationResponse w2.
                     let decision = toUpperCase (trim (content validationResponse))
                     in (Inr (decision = ''SAFE''), w2))))"

text \<open>
  \<^verbatim>\<open>executeQuery(query)\<close>: each query type reads one aggregation of one repository, named
  here by its method; the date range and the other parameters the method receives are
  derived from the query, which the read carries.
\<close>

definition repository_method :: "(string \<times> string) list" where
  "repository_method =
     [(''rank_accounts_by_expense'', ''accountRepo.getAccountsRankedByExpenses''),
      (''total_spending_by_category'', ''categoryRepo.getExpensesSummary''),
      (''count_archived_transactions'', ''transactionRepo.countArchived''),
      (''count_remaining_installments'', ''creditCardRepo.countRemainingInstallments''),
      (''total_credit_card_debt'', ''creditCardRepo.getTotalDebt''),
      (''rank_accounts_by_transaction_count'', ''accountRepo.getAccountsRankedByTransactionCount'')]"

definition executeQuery :: "env \<Rightarrow> GeneratedQuery \<Rightarrow> world \<Rightarrow> (error + json) \<times> world" where
  "executeQuery E query w =
     (case map_of repository_method (query_type query) of
        Some method \<Rightarrow>
          await (aggregate E (trace w) method query, emit (RepositoryRead method query) w)
            (\<lambda>rows w1.
               if query_type query \<in> {''count_archived_transactions'', ''count_remaining_installments''}
               then (Inr (JObj [(''count'', rows)]), w1)
               else (Inr rows, w1))
      | None \<Rightarrow>
          (Inl (Error (''The query type '' @ [CHR 0x22] @ query_type query @ [CHR 0x22]
                        @ '' is not supported.'')), w))"

text \<open>
  \<^verbatim>\<open>formatResponse(query, results)\<close> renders the rows as text; the rendering, which
  depends on the locale's number format, is taken from the environment.
\<close>

definition formatResponse :: "env \<Rightarrow> GeneratedQuery \<Rightarrow> json \<Rightarrow> string" where
  "formatResponse E query results = render E query results"

definition processNaturalLanguageQuery ::
  "env \<Rightarrow> string \<Rightarrow> world \<Rightarrow> (error + string) \<times> world" where
  "processNaturalLanguageQuery E query w =
     await (generateQuery E query w)
       (\<lambda>generatedQuery w1.
          await (validateQuery E query generatedQuery w1)
            (\<lambda>isSafe w2.
               if \<not> isSafe then (Inl (Error ''Query was deemed unsafe to run.''), w2)
               else
                 await (executeQuery E generatedQuery w2)
                   (\<lambda>results w3. (Inr (formatResponse E generatedQuery results), w3))))"

section \<open>Repositories\<close>

text \<open>
  Lookups read the tables; \<^verbatim>\<open>findByName\<close> called with \<^verbatim>\<open>null\<close> or \<^verbatim>\<open>undefined\<close> compares
  against \<^verbatim>\<open>NULL\<close> and finds nothing. An insert is recorded as an effect, and the row it
  returns is represented by the data it was built from.
\<close>

definition AccountRepository_findById :: "env \<Rightarrow> nat \<Rightarrow> Account option" where
  "AccountRepository_findById E i = find (\<lambda>a. account_id a = i) (accounts E)"

definition AccountRepository_findByName :: "env \<Rightarrow> nullable_string \<Rightarrow> Account option" where
  "AccountRepository_findByName E name =
     (case name of
        Str n \<Rightarrow> find (\<lambda>a. ilike E n (account_name a)) (accounts E)
      | _ \<Rightarrow> None)"

definition AccountRepository_findAll :: "env \<Rightarrow> Account list" where
  "AccountRepository_findAll E = accounts E"

definition CategoryRepository_findById :: "env \<Rightarrow> nat \<Rightarrow> Category option" where
  "CategoryRepository_findById E i = find (\<lambda>c. category_id c = i) (categories E)"

definition CategoryRepository_findByName :: "env \<Rightarrow> nullable_string \<Rightarrow> Category option" where
  "CategoryRepository_findByName E name =
     (case name of
        Str n \<Rightarrow> find (\<lambda>c. ilike E n (category_name c)) (categories E)
      | _ \<Rightarrow> None)"

definition TransactionRepository_create ::
  "CreateTransactionDTO \<Rightarrow> world \<Rightarrow> (error + CreateTransactionDTO) \<times> world" where
  "TransactionRepository_create data w = (Inr data, emit (TransactionCreate data) w)"

definition CreditCardRepository_create ::
  "CreateCreditCardPurchaseDTO \<Rightarrow> world \<Rightarrow> (error + CreateCreditCardPurchaseDTO) \<times> world" where
  "CreditCardRepository_create data w = (Inr data, emit (CreditCardCreate data) w)"

section \<open>ExpenseTrackerService\<close>

fun string_of_nat :: "nat \<Rightarrow> string" where
  "string_of_nat n =
     (if n < 10 then [''0123456789'' ! n]
      else string_of_nat (n div 10) @ [''0123456789'' ! (n mod 10)])"

declare string_of_nat.simps [simp del]

record CreateIncomeDTO =
  inc_date :: js_date
  inc_description :: string
  inc_accountId :: nat
  inc_amount :: rat
  inc_currency :: Currency

record CreateTransferDTO =
  trf_date :: js_date
  trf_description :: string
  trf_fromAccountId :: nat
  trf_toAccountId :: nat
  trf_fromAmount :: rat
  trf_toAmount :: rat

record CreateExpenseDTO =
  exp_date :: js_date
  exp_description :: string
  exp_accountId :: nat
  exp_amount :: rat
  exp_categoryId :: nat

definition recordIncome ::
  "env \<Rightarrow> CreateIncomeDTO \<Rightarrow> world \<Rightarrow> (error + CreateTransactionDTO) \<times> world" where
  "recordIncome E data w =
     (case AccountRepository_findById E (inc_accountId data) of
        None \<Rightarrow> (Inl (Error (''Account '' @ string_of_nat (inc_accountId data) @ '' not found'')), w)
      | Some account \<Rightarrow>
          TransactionRepository_create
            \<lparr>tx_date = inc_date data, tx_description = inc_description data,
             tx_fromAccountId = None, tx_toAccountId = Some (inc_accountId data),
             tx_fromAmount = Some (inc_amount data), tx_toAmount = inc_amount data,
             tx_fromCurrency = Some (inc_currency data), tx_toCurrency = inc_currency data,
             tx_categoryId = None, tx_type = INCOME\<rparr> w)"

definition recordTransfer ::
  "env \<Rightarrow> CreateTransferDTO \<Rightarrow> world \<Rightarrow> (error + CreateTransactionDTO) \<times> world" where
  "recordTransfer E data w =
     (case (AccountRepository_findById E (trf_fromAccountId data),
            AccountRepository_findById E (trf_toAccountId data)) of
        (None, t) \<Rightarrow>
          (Inl (Error (''From account '' @ string_of_nat (trf_fromAccountId data) @ '' not found'')), w)
      | (Some fromAcc, None) \<Rightarrow>
          (Inl (Error (''To account '' @ string_of_nat (trf_toAccountId data) @ '' not found'')), w)
      | (Some fromAcc, Some toAcc) \<Rightarrow>
          TransactionRepository_create
            \<lparr>tx_date = trf_date data, tx_description = trf_description data,
             tx_fromAccountId = Some (trf_fromAccountId data),
             tx_toAccountId = Some (trf_toAccountId data),
             tx_fromAmount = Some (trf_fromAmount data), tx_toAmount = trf_toAmount data,
             tx_fromCurrency = Some (account_currency fromAcc),
             tx_toCurrency = account_currency toAcc,
             tx_categoryId = None, tx_type = TRANSFER\<rparr> w)"

definition recordExpense ::
  "env \<Rightarrow> CreateExpenseDTO \<Rightarrow> world \<Rightarrow> (error + CreateTransactionDTO) \<times> world" where
  "recordExpense E data w =
     (case AccountRepository_findById E (exp_accountId data) of
        None \<Rightarrow> (Inl (Error (''Account '' @ string_of_nat (exp_accountId data) @ '' not found'')), w)
      | Some account \<Rightarrow>
          (case CategoryRepository_findById E (exp_categoryId data) of
             None \<Rightarrow>
               (Inl (Error (''Category '' @ string_of_nat (exp_categoryId data) @ '' not found'')), w)
           | Some cat \<Rightarrow>
               TransactionRepository_create
                 \<lparr>tx_date = exp_date data, tx_description = exp_description data,
                  tx_fromAccountId = Some (exp_accountId data), tx_toAccountId = None,
                  tx_fromAmount = Some (exp_amount data), tx_toAmount = exp_amount data,
                  tx_fromCurrency = Some (account_currency account),
                  tx_toCurrency = account_currency account,
                  tx_categoryId = Some (exp_categoryId data), tx_type = EXPENSE\<rparr> w))"

definition recordCreditCardPayment ::
  "env \<Rightarrow> nat \<Rightarrow> nat \<Rightarrow> rat \<Rightarrow> js_date \<Rightarrow> string \<Rightarrow> world
     \<Rightarrow> (error + CreateTransactionDTO) \<times> world" where
  "recordCreditCardPayment E fromAccountId cardAccountId amt dt descr w =
     (case (AccountRepository_findById E fromAccountId,
            AccountRepository_findById E cardAccountId) of
        (None, c) \<Rightarrow>
          (Inl (Error (''From account '' @ string_of_nat fromAccountId @ '' not found'')), w)
      | (Some fromAcc, None) \<Rightarrow>
          (Inl (Error (''Credit card account '' @ string_of_nat cardAccountId @ '' not found'')), w)
      | (Some fromAcc, Some cardAcc) \<Rightarrow>
          if account_type cardAcc \<noteq> CREDIT_CARD
          then (Inl (Error (''Account '' @ string_of_nat cardAccountId @ '' is not a credit card'')), w)
          else
            TransactionRepository_create
              \<lparr>tx_date = dt, tx_description = descr,
               tx_fromAccountId = Some fromAccountId, tx_toAccountId = Some cardAccountId,
               tx_fromAmount = Some amt, tx_toAmount = amt,
               tx_fromCurrency = Some (account_currency fromAcc),
               tx_toCurrency = account_currency cardAcc,
               tx_categoryId = None, tx_type = CREDIT_CARD_PAYMENT\<rparr> w)"

subsection \<open>Dates of the installments\<close>

text \<open>
  \<^verbatim>\<open>setMonth\<close> keeps the day of the month and moves to the month with the given index,
  counted from January of the date's year; a day past the end of that month runs over
  into the following month. A date holds a day between 1 and 31, so the overflow is at
  most three days.
\<close>

definition isLeapYear :: "int \<Rightarrow> bool" where
  "isLeapYear y = (y mod 4 = 0 \<and> (y mod 100 \<noteq> 0 \<or> y mod 400 = 0))"

definition daysInMonth :: "int \<Rightarrow> nat \<Rightarrow> nat" where
  "daysInMonth y m =
     (if m = 1 then (if isLeapYear y then 29 else 28)
      else if m \<in> {3, 5, 8, 10} then 30
      else 31)"

definition setMonth :: "js_date \<Rightarrow> nat \<Rightarrow> js_date" where
  "setMonth dt monthIndex =
     (case dt of
        InvalidDate \<Rightarrow> InvalidDate
      | Date y m d \<Rightarrow>
          let y' = y + int (monthIndex div 12);
              m' = monthIndex mod 12
          in if d \<le> daysInMonth y' m' then Date y' m' d
             else if m' = 11 then Date (y' + 1) 0 (d - daysInMonth y' m')
             else Date y' (Suc m') (d - daysInMonth y' m'))"

text \<open>
  The date of installment \<open>i\<close>: a copy of the purchase date, moved by
  \<^verbatim>\<open>setMonth(getMonth() + (i - 1))\<close>.
\<close>

definition installmentDate :: "js_date \<Rightarrow> nat \<Rightarrow> js_date" where
  "installmentDate dt i =
     (case dt of
        InvalidDate \<Rightarrow> InvalidDate
      | Date y m d \<Rightarrow> setMonth (Date y m d) (m + (i - 1)))"

subsection \<open>recordCreditCardPurchase\<close>

text \<open>
  The loop \<^verbatim>\<open>for (let i = 1; i <= data.totalInstallments; i++)\<close>: \<open>i\<close> is the loop variable
  and \<open>left\<close> the number of iterations still to run.
\<close>

definition installment_row ::
  "CreateFullCreditCardPurchaseDTO \<Rightarrow> string \<Rightarrow> rat \<Rightarrow> nat \<Rightarrow> CreateCreditCardPurchaseDTO" where
  "installment_row data groupId installmentAmount i =
     \<lparr>creditCardAccountId = full_creditCardAccountId data,
      date = installmentDate (full_date data) i,
      description = full_description data @ '' ('' @ string_of_nat i @ ''/''
                    @ string_of_nat (full_totalInstallments data) @ '')'',
      amount = installmentAmount,
      currency = full_currency data,
      categoryId = full_categoryId data,
      installmentNumber = i,
      totalInstallments = full_totalInstallments data,
      purchaseGroupId = groupId\<rparr>"

fun create_installments ::
  "CreateFullCreditCardPurchaseDTO \<Rightarrow> string \<Rightarrow> rat \<Rightarrow> nat \<Rightarrow> nat \<Rightarrow> world
     \<Rightarrow> (error + CreateCreditCardPurchaseDTO list) \<times> world" where
  "create_installments data groupId installmentAmount i 0 w = (Inr [], w)"
| "create_installments data groupId installmentAmount i (Suc left) w =
     await (CreditCardRepository_create (installment_row data groupId installmentAmount i) w)
       (\<lambda>purchase w1.
          await (create_installments data groupId installmentAmount (Suc i) left w1)
            (\<lambda>purchases w2. (Inr (purchase # purchases), w2)))"

definition recordCreditCardPurchase ::
  "env \<Rightarrow> CreateFullCreditCardPurchaseDTO \<Rightarrow> world
     \<Rightarrow> (error + CreateCreditCardPurchaseDTO list) \<times> world" where
  "recordCreditCardPurchase E data w =
     (case AccountRepository_findById E (full_creditCardAccountId data) of
        None \<Rightarrow>
          (Inl (Error (''Credit card account '' @ string_of_nat (full_creditCardAccountId data)
                       @ '' not found'')), w)
      | Some cardAcc \<Rightarrow>
          if account_type cardAcc \<noteq> CREDIT_CARD
          then (Inl (Error (''Account '' @ string_of_nat (full_creditCardAccountId data)
                            @ '' is not a credit card'')), w)
          else if (case full_categoryId data of
                     Some c \<Rightarrow> c \<noteq> 0 \<and> CategoryRepository_findById E c = None
                   | None \<Rightarrow> False)
          then (Inl (Error (''Category '' @ string_of_nat (the (full_categoryId data))
                            @ '' not found'')), w)
          else
            (let purchaseGroupId = uuidv4 E (trace w);
                 installmentAmount = totalAmount data / of_nat (full_totalInstallments data)
             in create_installments data purchaseGroupId installmentAmount 1
                  (full_totalInstallments data) w))"

section \<open>Expense handler\<close>

datatype saved =
    SavedTransaction CreateTransactionDTO
  | SavedInstallments "CreateCreditCardPurchaseDTO list"

definition truthy_str :: "nullable_string \<Rightarrow> bool" where
  "truthy_str s = (case s of Str t \<Rightarrow> t \<noteq> [] | _ \<Rightarrow> False)"

text \<open>A name inside a template literal.\<close>

definition show_name :: "nullable_string \<Rightarrow> string" where
  "show_name s = (case s of Undefined \<Rightarrow> ''undefined'' | Null \<Rightarrow> ''null'' | Str t \<Rightarrow> t)"

definition or_amount :: "rat option \<Rightarrow> rat \<Rightarrow> rat" where
  "or_amount a b = (case a of Some x \<Rightarrow> (if x \<noteq> 0 then x else b) | None \<Rightarrow> b)"

definition saved_transaction ::
  "(error + CreateTransactionDTO) \<times> world \<Rightarrow> (error + saved) \<times> world" where
  "saved_transaction r = await r (\<lambda>row w. (Inr (SavedTransaction row), w))"

definition handleIncome :: "env \<Rightarrow> ExpenseParserResult \<Rightarrow> world \<Rightarrow> (error + saved) \<times> world" where
  "handleIncome E parsed w =
     (case AccountRepository_findByName E (toAccount parsed) of
        None \<Rightarrow> (Inl (Error (''Account not found: '' @ show_name (toAccount parsed))), w)
      | Some account \<Rightarrow>
          saved_transaction
            (recordIncome E
               \<lparr>inc_date = new_Date E (parsed_date parsed),
                inc_description = parsed_description parsed,
                inc_accountId = account_id account,
                inc_amount = parsed_amount parsed,
                inc_currency = parsed_currency parsed\<rparr> w))"

definition handleTransfer :: "env \<Rightarrow> ExpenseParserResult \<Rightarrow> world \<Rightarrow> (error + saved) \<times> world" where
  "handleTransfer E parsed w =
     (case (AccountRepository_findByName E (fromAccount parsed),
            AccountRepository_findByName E (toAccount parsed)) of
        (None, t) \<Rightarrow>
          (Inl (Error (''From account not found: '' @ show_name (fromAccount parsed))), w)
      | (Some fromAcc, None) \<Rightarrow>
          (Inl (Error (''To account not found: '' @ show_name (toAccount parsed))), w)
      | (Some fromAcc, Some toAcc) \<Rightarrow>
          saved_transaction
            (recordTransfer E
               \<lparr>trf_date = new_Date E (parsed_date parsed),
                trf_description = parsed_description parsed,
                trf_fromAccountId = account_id fromAcc,
                trf_toAccountId = account_id toAcc,
                trf_fromAmount = or_amount (fromAmount parsed) (parsed_amount parsed),
                trf_toAmount = or_amount (toAmount parsed) (parsed_amount parsed)\<rparr> w))"

definition handleExpense :: "env \<Rightarrow> ExpenseParserResult \<Rightarrow> world \<Rightarrow> (error + saved) \<times> world" where
  "handleExpense E parsed w =
     (case (AccountRepository_findByName E (fromAccount parsed),
            CategoryRepository_findByName E (category parsed)) of
        (None, c) \<Rightarrow> (Inl (Error (''Account not found: '' @ show_name (fromAccount parsed))), w)
      | (Some account, None) \<Rightarrow>
          (Inl (Error (''Category not found: '' @ show_name (category parsed))), w)
      | (Some account, Some cat) \<Rightarrow>
          saved_transaction
            (recordExpense E
               \<lparr>exp_date = new_Date E (parsed_date parsed),
                exp_description = parsed_description parsed,
                exp_accountId = account_id account,
                exp_amount = parsed_amount parsed,
                exp_categoryId = category_id cat\<rparr> w))"

definition handleCreditCardPayment ::
  "env \<Rightarrow> ExpenseParserResult \<Rightarrow> world \<Rightarrow> (error + saved) \<times> world" where
  "handleCreditCardPayment E parsed w =
     (case (AccountRepository_findByName E (fromAccount parsed),
            AccountRepository_findByName E (toAccount parsed)) of
        (None, c) \<Rightarrow>
          (Inl (Error (''From account not found: '' @ show_name (fromAccount parsed))), w)
      | (Some fromAcc, None) \<Rightarrow>
          (Inl (Error (''Credit card not found: '' @ show_name (toAccount parsed))), w)
      | (Some fromAcc, Some creditCard) \<Rightarrow>
          saved_transaction
            (recordCreditCardPayment E (account_id fromAcc) (account_id creditCard)
               (parsed_amount parsed) (new_Date E (parsed_date parsed))
               (parsed_description parsed) w))"

definition card_name :: "ExpenseParserResult \<Rightarrow> nullable_string" where
  "card_name parsed =
     (if truthy_str (toAccount parsed) then toAccount parsed else Str ''BBVA Credit Card'')"

definition installments_or_1 :: "ExpenseParserResult \<Rightarrow> nat" where
  "installments_or_1 parsed = (if installments parsed \<noteq> 0 then installments parsed else 1)"

definition handleCreditCardPurchase ::
  "env \<Rightarrow> ExpenseParserResult \<Rightarrow> world \<Rightarrow> (error + saved) \<times> world" where
  "handleCreditCardPurchase E parsed w =
     (case AccountRepository_findByName E (card_name parsed) of
        None \<Rightarrow> (Inl (Error ''Credit card not found''), w)
      | Some creditCard \<Rightarrow>
          (let cat = (if truthy_str (category parsed)
                      then CategoryRepository_findByName E (category parsed) else None)
           in await (recordCreditCardPurchase E
                       \<lparr>full_creditCardAccountId = account_id creditCard,
                        full_date = new_Date E (parsed_date parsed),
                        full_description = parsed_description parsed,
                        totalAmount = parsed_amount parsed,
                        full_currency = parsed_currency parsed,
                        full_categoryId = map_option category_id cat,
                        full_totalInstallments = installments_or_1 parsed\<rparr> w)
                (\<lambda>purchases w1. (Inr (SavedInstallments purchases), w1))))"

text \<open>
  \<^verbatim>\<open>formatSuccessMessage(type, result)\<close>, by the kind of message and the number of rows; it
  reads the first element of a list of installments, which fails on an empty list.
\<close>

definition formatSuccessMessage :: "ParsedType \<Rightarrow> saved \<Rightarrow> error + reply" where
  "formatSuccessMessage ty result =
     (case result of
        SavedInstallments [] \<Rightarrow>
          Inl (Error ''Cannot read properties of undefined (reading description)'')
      | SavedInstallments (first # others) \<Rightarrow> Inr (TransactionRecorded ty (Suc (length others)))
      | SavedTransaction row \<Rightarrow> Inr (TransactionRecorded ty 1))"

definition save_parsed :: "env \<Rightarrow> ExpenseParserResult \<Rightarrow> world \<Rightarrow> (error + saved) \<times> world" where
  "save_parsed E parsed w =
     (case parsed_type parsed of
        income \<Rightarrow> handleIncome E parsed w
      | transfer \<Rightarrow> handleTransfer E parsed w
      | expense \<Rightarrow> handleExpense E parsed w
      | credit_card_payment \<Rightarrow> handleCreditCardPayment E parsed w
      | credit_card_purchase \<Rightarrow> handleCreditCardPurchase E parsed w)"

text \<open>What \<^verbatim>\<open>handleExpenseMessage\<close> does once the message has been parsed.\<close>

definition after_parse :: "env \<Rightarrow> ExpenseParserResult \<Rightarrow> world \<Rightarrow> (error + unit) \<times> world" where
  "after_parse E parsed w =
     (if confidence parsed < 50
      then (Inr (), emit (Reply (NotConfident (confidence parsed))) w)
      else if parsed_type parsed = expense \<and> \<not> truthy_str (fromAccount parsed)
              \<and> AccountRepository_findAll E \<noteq> []
      then (Inr (), emit (Reply (WhichAccount (AccountRepository_findAll E)))
                      (w\<lparr>pendingTransaction := Some parsed\<rparr>))
      else
        await (save_parsed E parsed w)
          (\<lambda>result w1.
             await (formatSuccessMessage (parsed_type parsed) result, w1)
               (\<lambda>msg w2. (Inr (), emit (Reply msg) w2))))"

definition handleExpenseMessage_body ::
  "env \<Rightarrow> string option \<Rightarrow> world \<Rightarrow> (error + unit) \<times> world" where
  "handleExpenseMessage_body E messageText w =
     (case messageText of
        None \<Rightarrow> (Inr (), w)
      | Some txt \<Rightarrow>
          if txt = [] then (Inr (), w)
          else
            await (getPromptWithConfig E ''expense-parser''
                     (fallback_config getExpenseParserJSONSchema) None
                     (emit ReplyWithChatAction w))
              (\<lambda>promptData w1.
                 let schema = schema_or (config promptData) getExpenseParserJSONSchema
                 in case extractStructured E txt (prompt promptData)
                           (''expense_parser'', schema) ExpenseParserSchema w1 of
                      (Inl extractError, w2) \<Rightarrow> (Inr (), emit (Reply CouldNotUnderstand) w2)
                    | (Inr parsed, w2) \<Rightarrow> after_parse E parsed w2))"

definition handleExpenseMessage :: "env \<Rightarrow> string option \<Rightarrow> world \<Rightarrow> world" where
  "handleExpenseMessage E messageText w =
     snd (try_catch (handleExpenseMessage_body E messageText w)
            (\<lambda>e w1. (Inr (), emit (Reply (ErrorProcessing (message e))) w1)))"

section \<open>Observations\<close>

text \<open>
  The test of the cache lookup in \<^verbatim>\<open>getPromptWithConfig\<close>, at the next reading of the
  clock: an entry for the name that is younger than the time to live.
\<close>

definition cache_hit :: "env \<Rightarrow> world \<Rightarrow> string \<Rightarrow> bool" where
  "cache_hit E w name =
     (case promptCache w name of
        None \<Rightarrow> False
      | Some cached \<Rightarrow> clock E (ticks w) - timestamp cached < cacheTTL)"

text \<open>What the prompt store hands to the resolver when it is asked in state \<open>w\<close>.\<close>

definition store_answer :: "env \<Rightarrow> string \<Rightarrow> nat option \<Rightarrow> world \<Rightarrow> prompt_data option" where
  "store_answer E name version w =
     (if enabled E
      then (case langfuse_getPrompt E (trace w) name (version_sent version) of
              Inr (Some pd) \<Rightarrow> Some \<lparr>prompt = prompt pd, config = config pd\<rparr>
            | _ \<Rightarrow> None)
      else None)"

text \<open>The effects on the database: reads of the analytics executor, and inserted rows.\<close>

fun is_read :: "event \<Rightarrow> bool" where
  "is_read (RepositoryRead method query) = True"
| "is_read ev = False"

fun is_create :: "event \<Rightarrow> bool" where
  "is_create (TransactionCreate data) = True"
| "is_create (CreditCardCreate data) = True"
| "is_create ev = False"

definition executed :: "world \<Rightarrow> event list" where
  "executed w = filter is_read (trace w)"

definition persisted :: "world \<Rightarrow> event list" where
  "persisted w = filter is_create (trace w)"

text \<open>
  A reference of a parsed transaction is resolved when a name is given and a row is found
  for it. The references a transaction type requires are the ones its handler looks up
  and refuses to go on without.
\<close>

definition resolved_account :: "env \<Rightarrow> nullable_string \<Rightarrow> bool" where
  "resolved_account E name = (truthy_str name \<and> AccountRepository_findByName E name \<noteq> None)"

definition resolved_category :: "env \<Rightarrow> nullable_string \<Rightarrow> bool" where
  "resolved_category E name = (truthy_str name \<and> CategoryRepository_findByName E name \<noteq> None)"

definition references_resolved :: "env \<Rightarrow> ExpenseParserResult \<Rightarrow> bool" where
  "references_resolved E parsed =
     (case parsed_type parsed of
        income \<Rightarrow> resolved_account E (toAccount parsed)
      | transfer \<Rightarrow> resolved_account E (fromAccount parsed) \<and> resolved_account E (toAccount parsed)
      | expense \<Rightarrow> resolved_account E (fromAccount parsed) \<and> resolved_category E (category parsed)
      | credit_card_payment \<Rightarrow>
          resolved_account E (fromAccount parsed) \<and> resolved_account E (toAccount parsed)
      | credit_card_purchase \<Rightarrow> resolved_account E (card_name parsed))"

text \<open>The account a name leads to is a credit card.\<close>

definition is_credit_card :: "env \<Rightarrow> nullable_string \<Rightarrow> bool" where
  "is_credit_card E name =
     (case AccountRepository_findByName E name of
        None \<Rightarrow> False
      | Some a \<Rightarrow>
          (case AccountRepository_findById E (account_id a) of
             None \<Rightarrow> False
           | Some b \<Rightarrow> account_type b = CREDIT_CARD))"

definition card_is_credit_card :: "env \<Rightarrow> ExpenseParserResult \<Rightarrow> bool" where
  "card_is_credit_card E parsed =
     (case parsed_type parsed of
        credit_card_payment \<Rightarrow> is_credit_card E (toAccount parsed)
      | credit_card_purchase \<Rightarrow> is_credit_card E (card_name parsed)
      | _ \<Rightarrow> True)"

section \<open>An example deployment\<close>

text \<open>
  A small environment to run the services on: a prompt store with the four prompts, a
  provider whose answers are scripted (the validator's request is the one capped at ten
  tokens), two bank accounts, one credit card and one category.
\<close>

definition initial_world :: world where
  "initial_world = \<lparr>promptCache = (\<lambda>name. None), ticks = 0, trace = [], pendingTransaction = None\<rparr>"

definition example_store :: "string \<Rightarrow> prompt_data option" where
  "example_store name =
     (if name = ''query-validator''
      then Some \<lparr>prompt = ''Request: {{user_request}} Query: {{ generated_query }}'', config = None\<rparr>
      else if name \<in> {''orchestrator-intent'', ''query-generator'', ''expense-parser''}
      then Some \<lparr>prompt = ''Answer in JSON.'', config = None\<rparr>
      else None)"

definition says :: "string \<Rightarrow> error + chat_completion" where
  "says c = Inr \<lparr>choices = [Some (Some c)], completion_model = ''example-model''\<rparr>"

definition scripted :: "error + chat_completion \<Rightarrow> error + chat_completion \<Rightarrow> chat_request
     \<Rightarrow> error + chat_completion" where
  "scripted extraction verdict req = (if max_tokens req = 10 then verdict else extraction)"

definition example_JSON_parse :: "string \<Rightarrow> error + json" where
  "example_JSON_parse s =
     (if s = ''archived'' then Inr (JObj [(''query_type'', JStr ''count_archived_transactions'')])
      else if s = ''intent'' then
        Inr (JObj [(''intent'', JStr ''track_expense''), (''confidence'', JNum (95 / 100))])
      else if s = ''odd intent'' then
        Inr (JObj [(''intent'', JStr ''delete_everything''), (''confidence'', JNum 1)])
      else if s = ''payment'' then
        Inr (JObj [(''type'', JStr ''credit_card_payment''), (''description'', JStr ''Card payment''),
                   (''amount'', JNum 200), (''fromAccount'', JStr ''Main Checking''),
                   (''toAccount'', JStr ''Savings''), (''currency'', JStr ''USD''),
                   (''date'', JStr ''2025-01-31''), (''confidence'', JNum 90)])
      else if s = ''groceries'' then
        Inr (JObj [(''type'', JStr ''expense''), (''description'', JStr ''Groceries''),
                   (''amount'', JNum 50), (''fromAccount'', JStr ''Main Checking''),
                   (''category'', JStr ''Food & Groceries''), (''currency'', JStr ''USD''),
                   (''date'', JStr ''2025-01-31''), (''confidence'', JNum 90)])
      else if s = ''laptop'' then
        Inr (JObj [(''type'', JStr ''credit_card_purchase''), (''description'', JStr ''Laptop''),
                   (''amount'', JNum 1200), (''fromAccount'', JNull),
                   (''toAccount'', JStr ''Visa''), (''currency'', JStr ''USD''),
                   (''date'', JStr ''2025-01-15''), (''installments'', JNum 3),
                   (''confidence'', JNum 95)])
      else if s = ''unsure'' then
        Inr (JObj [(''type'', JStr ''expense''), (''description'', JStr ''Something''),
                   (''amount'', JNum 50), (''fromAccount'', JStr ''Main Checking''),
                   (''category'', JStr ''Food & Groceries''), (''currency'', JStr ''USD''),
                   (''date'', JStr ''2025-01-31''), (''confidence'', JNum 20)])
      else Inl (Error ''SyntaxError''))"



definition example_accounts :: "Account list" where
  "example_accounts =
     [\<lparr>account_id = 1, account_name = ''Main Checking'', account_type = BANK,
       account_currency = USD\<rparr>,
      \<lparr>account_id = 2, account_name = ''Savings'', account_type = BANK, account_currency = USD\<rparr>,
      \<lparr>account_id = 3, account_name = ''Visa'', account_type = CREDIT_CARD,
       account_currency = USD\<rparr>]"

definition example_env ::
  "bool \<Rightarrow> (string \<Rightarrow> error + prompt_data option) \<Rightarrow> (chat_request \<Rightarrow> error + chat_completion) \<Rightarrow> env" where
  "example_env on store provider =
     \<lparr>enabled = on,
      langfuse_getPrompt = (\<lambda>tr name version. store name),
      clock = (\<lambda>k. 1000 * int k),
      models = (\<lambda>t. ''example-model''),
      completions_create = (\<lambda>tr req. provider req),
      JSON_parse = example_JSON_parse,
      JSON_stringify = (\<lambda>q. query_type q),

      uuidv4 = (\<lambda>tr. ''group-1''),
      new_Date = (\<lambda>s. Date 2025 0 31),
      accounts = example_accounts,
      categories = [\<lparr>category_id = 1, category_name = ''Food & Groceries''\<rparr>],
      ilike = (\<lambda>pattern name. pattern = name),
      aggregate = (\<lambda>tr method q. Inr (JNum 3)),
      render = (\<lambda>q rows. ''You have 3 archived transactions.'')\<rparr>"

text \<open>The deployment in which the store is on and the provider always gives the same answer.\<close>

definition answering :: "string \<Rightarrow> env" where
  "answering c = example_env True (\<lambda>n. Inr (example_store n)) (\<lambda>r. says c)"

text \<open>The deployment whose store holds, under every name, the given prompt text and config.\<close>

definition configured :: "string \<Rightarrow> json option \<Rightarrow> env" where
  "configured prompt_text cfg =
     example_env True (\<lambda>n. Inr (Some \<lparr>prompt = prompt_text, config = cfg\<rparr>)) (\<lambda>r. says ''intent'')"

section \<open>Properties\<close>

subsection \<open>Prompt store and prompt cache\<close>

lemma LangfuseClient_getPrompt_eq:
  "LangfuseClient_getPrompt E name version w =
     (Inr (store_answer E name version w),
      if enabled E then emit (LangfuseGetPrompt name (version_sent version)) w else w)"
  by (simp add: LangfuseClient_getPrompt_def try_catch_def await_def store_answer_def
           split: sum.splits option.splits)

lemma fetch_and_cache_eq:
  "fetch_and_cache E name fb version w =
     (case store_answer E name version w of
        None \<Rightarrow> (Inl (prompt_not_found name),
                  if enabled E then emit (LangfuseGetPrompt name (version_sent version)) w else w)
      | Some r \<Rightarrow>
          if prompt r \<noteq> [] then
            (Inr \<lparr>prompt = prompt r, config = or_else (config r) fb\<rparr>,
             (emit (LangfuseGetPrompt name (version_sent version)) w)
               \<lparr>ticks := Suc (ticks w),
                promptCache := (promptCache w)
                  (name := Some \<lparr>prompt = prompt r, config = or_else (config r) fb,
                                  timestamp = clock E (ticks w)\<rparr>)\<rparr>)
          else (Inl (prompt_not_found name), emit (LangfuseGetPrompt name (version_sent version)) w))"
  by (auto simp: fetch_and_cache_def await_def Date_now_def Let_def LangfuseClient_getPrompt_eq
                 emit_def store_answer_def
           split: option.splits)

lemma store_answer_ticks:
  "store_answer E name version (w\<lparr>ticks := k\<rparr>) = store_answer E name version w"
  by (simp add: store_answer_def)

lemma getPromptWithConfig_miss:
  "\<not> cache_hit E w name \<Longrightarrow>
     getPromptWithConfig E name fb version w =
       fetch_and_cache E name fb version
         (case promptCache w name of None \<Rightarrow> w | Some c \<Rightarrow> w\<lparr>ticks := Suc (ticks w)\<rparr>)"
  by (auto simp: getPromptWithConfig_def cache_hit_def Date_now_def split: option.splits)

lemma getPromptWithConfig_hit:
  "cache_hit E w name \<Longrightarrow>
     getPromptWithConfig E name fb version w =
       (Inr \<lparr>prompt = prompt (the (promptCache w name)), config = config (the (promptCache w name))\<rparr>,
        w\<lparr>ticks := Suc (ticks w)\<rparr>)"
  by (auto simp: getPromptWithConfig_def cache_hit_def Date_now_def split: option.splits)

lemma getPromptWithConfig_miss_result:
  "\<not> cache_hit E w name \<Longrightarrow>
     fst (getPromptWithConfig E name fb version w) =
       (case store_answer E name version w of
          None \<Rightarrow> Inl (prompt_not_found name)
        | Some r \<Rightarrow> if prompt r \<noteq> [] then Inr \<lparr>prompt = prompt r, config = or_else (config r) fb\<rparr>
                    else Inl (prompt_not_found name))"
  by (cases "promptCache w name")
     (auto simp: getPromptWithConfig_miss fetch_and_cache_eq store_answer_ticks
           split: option.splits)

lemma getPromptWithConfig_error:
  "fst (getPromptWithConfig E name fb version w) = Inl e \<Longrightarrow> e = prompt_not_found name"
  by (cases "cache_hit E w name")
     (auto simp: getPromptWithConfig_hit getPromptWithConfig_miss_result split: option.splits if_splits)

lemma getPromptWithConfig_trace:
  "trace (snd (getPromptWithConfig E name fb version w)) =
     trace w @ (if cache_hit E w name \<or> \<not> enabled E then []
                else [LangfuseGetPrompt name (version_sent version)])"
proof (cases "cache_hit E w name")
  case True
  then show ?thesis by (simp add: getPromptWithConfig_hit)
next
  case False
  then show ?thesis
    by (auto simp: getPromptWithConfig_miss fetch_and_cache_eq emit_def store_answer_def
             split: option.splits)
qed

subsection \<open>A disabled store\<close>

text \<open>
  The cache is written only after a fetch from an enabled store, so with a disabled store
  it is empty from the start of the process on, and resolving any prompt fails.
\<close>

lemma disabled_cache_empty_invariant:
  assumes "\<not> enabled E" and "promptCache w = (\<lambda>name. None)"
  shows "promptCache (snd (getPromptWithConfig E name fb version w)) = (\<lambda>name. None)"
    and "promptCache (clearCache w) = (\<lambda>name. None)"
    and "promptCache (clearPromptCache name w) = (\<lambda>name. None)"
    and "promptCache (emit ev w) = (\<lambda>name. None)"
    and "promptCache initial_world = (\<lambda>name. None)"
  using assms
  by (auto simp: getPromptWithConfig_def fetch_and_cache_def clearCache_def clearPromptCache_def
        emit_def initial_world_def)

lemma disabled_store_fails:
  assumes "\<not> enabled E" and "promptCache w = (\<lambda>name. None)"
  shows "getPromptWithConfig E name fb version w = (Inl (prompt_not_found name), w)"
  using assms by (simp add: getPromptWithConfig_def fetch_and_cache_def)

text \<open>
  C10. \<^verbatim>\<open>LangfuseClient.getPrompt\<close> never throws: it gives no prompt when the client is
  disabled, when the store has no data and when the fetch fails, and the pair of prompt
  text and config otherwise. The only error that resolving a prompt can end in is therefore
  the resolver's own.
\<close>

theorem LangfuseClient_getPrompt_never_throws:
  "fst (LangfuseClient_getPrompt E name version w) =
     Inr (if enabled E
          then (case langfuse_getPrompt E (trace w) name (version_sent version) of
                  Inl e \<Rightarrow> None
                | Inr None \<Rightarrow> None
                | Inr (Some pd) \<Rightarrow> Some \<lparr>prompt = prompt pd, config = config pd\<rparr>)
          else None)
   \<and> (\<forall>e. fst (getPromptWithConfig E name fallbackConfig version w) = Inl e
          \<longrightarrow> e = prompt_not_found name)"
  by (auto simp: LangfuseClient_getPrompt_eq store_answer_def getPromptWithConfig_error
           split: sum.splits option.splits)

theorem LangfuseClient_getPrompt_never_throws_witness:
  "fst (LangfuseClient_getPrompt
          (example_env True (\<lambda>n. Inl (Error ''ECONNREFUSED'')) (\<lambda>r. says ''intent''))
          ''orchestrator-intent'' (Some 0) initial_world) = Inr None
   \<and> fst (getPromptWithConfig
          (example_env True (\<lambda>n. Inl (Error ''ECONNREFUSED'')) (\<lambda>r. says ''intent''))
          ''orchestrator-intent'' None (Some 0) initial_world)
       = Inl (prompt_not_found ''orchestrator-intent'')"
  using LangfuseClient_getPrompt_never_throws
          [of "example_env True (\<lambda>n. Inl (Error ''ECONNREFUSED'')) (\<lambda>r. says ''intent'')"
              "''orchestrator-intent''" "Some 0" initial_world None]
  by (simp add: example_env_def initial_world_def getPromptWithConfig_def fetch_and_cache_def
        LangfuseClient_getPrompt_def try_catch_def await_def version_sent_def)

text \<open>
  C7, as amended. When the cache has no fresh entry for the name, \<^verbatim>\<open>getPromptWithConfig\<close>
  fails with the error "Prompt '<name>' not found or invalid in Langfuse. Please configure
  it correctly." if the store is disabled, returns no prompt, or returns an empty prompt
  text; there is no other source of prompt text. When the store returns a prompt text, the
  result carries that text, with the store's config if that is truthy (\<^verbatim>\<open>true\<close>, a non-zero
  number, a non-empty string, an array or an object), and the caller's fallback config
  otherwise, that is, when the store's config is missing, \<^verbatim>\<open>null\<close>, \<^verbatim>\<open>false\<close>, \<^verbatim>\<open>0\<close> or the
  empty string.
\<close>

theorem getPromptWithConfig_fails_closed:
  assumes "\<not> cache_hit E w name"
  shows "(\<not> enabled E
          \<or> fst (LangfuseClient_getPrompt E name version w) = Inr None
          \<or> (\<exists>r. fst (LangfuseClient_getPrompt E name version w) = Inr (Some r) \<and> prompt r = [])
          \<longrightarrow> fst (getPromptWithConfig E name fallbackConfig version w) =
                Inl (Error (''Prompt '' @ [CHR 0x27] @ name @ [CHR 0x27] @
                            '' not found or invalid in Langfuse. Please configure it correctly.'')))
       \<and> (\<forall>r. fst (LangfuseClient_getPrompt E name version w) = Inr (Some r) \<and> prompt r \<noteq> []
          \<longrightarrow> fst (getPromptWithConfig E name fallbackConfig version w) =
                Inr \<lparr>prompt = prompt r,
                     config = (case config r of
                                 None \<Rightarrow> fallbackConfig
                               | Some JNull \<Rightarrow> fallbackConfig
                               | Some (JBool b) \<Rightarrow> if b then Some (JBool True) else fallbackConfig
                               | Some (JNum n) \<Rightarrow> if n = 0 then fallbackConfig else Some (JNum n)
                               | Some (JStr s) \<Rightarrow> if s = [] then fallbackConfig else Some (JStr s)
                               | Some (JArr xs) \<Rightarrow> Some (JArr xs)
                               | Some (JObj kvs) \<Rightarrow> Some (JObj kvs))\<rparr>)"
proof -
  have choice: "or_else c fallbackConfig =
                  (case c of
                     None \<Rightarrow> fallbackConfig
                   | Some JNull \<Rightarrow> fallbackConfig
                   | Some (JBool b) \<Rightarrow> if b then Some (JBool True) else fallbackConfig
                   | Some (JNum n) \<Rightarrow> if n = 0 then fallbackConfig else Some (JNum n)
                   | Some (JStr s) \<Rightarrow> if s = [] then fallbackConfig else Some (JStr s)
                   | Some (JArr xs) \<Rightarrow> Some (JArr xs)
                   | Some (JObj kvs) \<Rightarrow> Some (JObj kvs))" for c
    by (simp add: or_else_def truthy_opt_def split: option.splits json.splits)
  show ?thesis
    using assms
    by (auto simp: getPromptWithConfig_miss_result LangfuseClient_getPrompt_eq choice
                   store_answer_def prompt_not_found_def)
qed

theorem getPromptWithConfig_fails_closed_witness:
  "\<not> cache_hit (example_env False (\<lambda>n. Inr (example_store n)) (\<lambda>r. says ''intent''))
        initial_world ''expense-parser''
   \<and> \<not> enabled (example_env False (\<lambda>n. Inr (example_store n)) (\<lambda>r. says ''intent''))
   \<and> fst (getPromptWithConfig (example_env False (\<lambda>n. Inr (example_store n)) (\<lambda>r. says ''intent''))
            ''expense-parser'' (fallback_config getExpenseParserJSONSchema) None initial_world)
       = Inl (Error (''Prompt '' @ [CHR 0x27] @ ''expense-parser'' @ [CHR 0x27] @
                     '' not found or invalid in Langfuse. Please configure it correctly.''))
   \<and> \<not> cache_hit (answering ''intent'') initial_world ''no-such-prompt''
   \<and> fst (LangfuseClient_getPrompt (answering ''intent'') ''no-such-prompt'' None initial_world)
       = Inr None
   \<and> fst (getPromptWithConfig (answering ''intent'')
            ''no-such-prompt'' (fallback_config getExpenseParserJSONSchema) None initial_world)
       = Inl (Error (''Prompt '' @ [CHR 0x27] @ ''no-such-prompt'' @ [CHR 0x27] @
                     '' not found or invalid in Langfuse. Please configure it correctly.''))
   \<and> \<not> cache_hit (configured [] (Some (JObj [(''temperature'', JNum 0)])))
        initial_world ''expense-parser''
   \<and> fst (LangfuseClient_getPrompt (configured [] (Some (JObj [(''temperature'', JNum 0)])))
            ''expense-parser'' None initial_world)
       = Inr (Some \<lparr>prompt = [], config = Some (JObj [(''temperature'', JNum 0)])\<rparr>)
   \<and> fst (getPromptWithConfig (configured [] (Some (JObj [(''temperature'', JNum 0)])))
            ''expense-parser'' (fallback_config getExpenseParserJSONSchema) None initial_world)
       = Inl (Error (''Prompt '' @ [CHR 0x27] @ ''expense-parser'' @ [CHR 0x27] @
                     '' not found or invalid in Langfuse. Please configure it correctly.''))
   \<and> \<not> cache_hit (configured ''Answer in JSON.'' (Some (JObj [(''temperature'', JNum 0)])))
        initial_world ''expense-parser''
   \<and> fst (LangfuseClient_getPrompt
            (configured ''Answer in JSON.'' (Some (JObj [(''temperature'', JNum 0)])))
            ''expense-parser'' None initial_world)
       = Inr (Some \<lparr>prompt = ''Answer in JSON.'',
                    config = Some (JObj [(''temperature'', JNum 0)])\<rparr>)
   \<and> fst (getPromptWithConfig
            (configured ''Answer in JSON.'' (Some (JObj [(''temperature'', JNum 0)])))
            ''expense-parser'' (fallback_config getExpenseParserJSONSchema) None initial_world)
       = Inr \<lparr>prompt = ''Answer in JSON.'', config = Some (JObj [(''temperature'', JNum 0)])\<rparr>
   \<and> \<not> cache_hit (answering ''intent'') initial_world ''expense-parser''
   \<and> fst (LangfuseClient_getPrompt (answering ''intent'') ''expense-parser'' None initial_world)
       = Inr (Some \<lparr>prompt = ''Answer in JSON.'', config = None\<rparr>)
   \<and> fst (getPromptWithConfig (answering ''intent'')
            ''expense-parser'' (fallback_config getExpenseParserJSONSchema) None initial_world)
       = Inr \<lparr>prompt = ''Answer in JSON.'',
              config = Some (JObj [(''config'', JObj [(''schema'', getExpenseParserJSONSchema)])])\<rparr>
   \<and> \<not> cache_hit (configured ''Answer in JSON.'' (Some (JObj [(''temperature'', JNum 0)])))
        (initial_world\<lparr>promptCache := (\<lambda>n. Some \<lparr>prompt = ''Old text'', config = None,
                                                timestamp = 0\<rparr>),
                       ticks := 300\<rparr>)
        ''expense-parser''
   \<and> fst (getPromptWithConfig
            (configured ''Answer in JSON.'' (Some (JObj [(''temperature'', JNum 0)])))
            ''expense-parser'' None None
            (initial_world\<lparr>promptCache := (\<lambda>n. Some \<lparr>prompt = ''Old text'', config = None,
                                                    timestamp = 0\<rparr>),
                           ticks := 300\<rparr>))
       = Inr \<lparr>prompt = ''Answer in JSON.'', config = Some (JObj [(''temperature'', JNum 0)])\<rparr>"
proof -
  let ?off = "example_env False (\<lambda>n. Inr (example_store n)) (\<lambda>r. says ''intent'')"
  let ?fb = "fallback_config getExpenseParserJSONSchema"
  let ?cfg = "Some (JObj [(''temperature'', JNum 0)])"
  let ?stale = "initial_world\<lparr>promptCache := (\<lambda>n. Some \<lparr>prompt = ''Old text'', config = None,
                                                       timestamp = 0\<rparr>),
                              ticks := 300\<rparr>"
  have miss: "\<not> cache_hit E initial_world name" for E name
    by (simp add: cache_hit_def initial_world_def)
  have stale: "\<not> cache_hit (configured ''Answer in JSON.'' ?cfg) ?stale ''expense-parser''"
    by code_simp
  have off: "\<not> enabled ?off" by (simp add: example_env_def)
  have no_prompt: "fst (LangfuseClient_getPrompt (answering ''intent'') ''no-such-prompt'' None
                        initial_world) = Inr None"
    by code_simp
  have empty: "fst (LangfuseClient_getPrompt (configured [] ?cfg) ''expense-parser'' None
                      initial_world) = Inr (Some \<lparr>prompt = [], config = ?cfg\<rparr>)"
    by code_simp
  have with_config: "fst (LangfuseClient_getPrompt (configured ''Answer in JSON.'' ?cfg)
                            ''expense-parser'' None initial_world)
                       = Inr (Some \<lparr>prompt = ''Answer in JSON.'', config = ?cfg\<rparr>)"
    by code_simp
  have no_config: "fst (LangfuseClient_getPrompt (answering ''intent'') ''expense-parser'' None
                          initial_world)
                     = Inr (Some \<lparr>prompt = ''Answer in JSON.'', config = None\<rparr>)"
    by code_simp
  have with_config_stale: "fst (LangfuseClient_getPrompt (configured ''Answer in JSON.'' ?cfg)
                            ''expense-parser'' None ?stale)
                       = Inr (Some \<lparr>prompt = ''Answer in JSON.'', config = ?cfg\<rparr>)"
    by code_simp
  have 1: "fst (getPromptWithConfig ?off ''expense-parser'' ?fb None initial_world)
             = Inl (Error (''Prompt '' @ [CHR 0x27] @ ''expense-parser'' @ [CHR 0x27] @
                   '' not found or invalid in Langfuse. Please configure it correctly.''))"
    using getPromptWithConfig_fails_closed [OF miss, of ?off "''expense-parser''" None ?fb] off
    by blast
  have 2: "fst (getPromptWithConfig (answering ''intent'') ''no-such-prompt'' ?fb None initial_world)
             = Inl (Error (''Prompt '' @ [CHR 0x27] @ ''no-such-prompt'' @ [CHR 0x27] @
                   '' not found or invalid in Langfuse. Please configure it correctly.''))"
    using getPromptWithConfig_fails_closed
            [OF miss, of "answering ''intent''" "''no-such-prompt''" None ?fb] no_prompt
    by simp
  have 3: "fst (getPromptWithConfig (configured [] ?cfg) ''expense-parser'' ?fb None initial_world)
             = Inl (Error (''Prompt '' @ [CHR 0x27] @ ''expense-parser'' @ [CHR 0x27] @
                   '' not found or invalid in Langfuse. Please configure it correctly.''))"
    using getPromptWithConfig_fails_closed
            [OF miss, of "configured [] ?cfg" "''expense-parser''" None ?fb] empty
    by auto
  have 4: "fst (getPromptWithConfig (configured ''Answer in JSON.'' ?cfg) ''expense-parser'' ?fb
                  None initial_world)
             = Inr \<lparr>prompt = ''Answer in JSON.'', config = ?cfg\<rparr>"
    using getPromptWithConfig_fails_closed
            [OF miss, of "configured ''Answer in JSON.'' ?cfg" "''expense-parser''" None ?fb]
          with_config
    by auto
  have 5: "fst (getPromptWithConfig (answering ''intent'') ''expense-parser'' ?fb None initial_world)
             = Inr \<lparr>prompt = ''Answer in JSON.'',
                    config = Some (JObj [(''config'', JObj [(''schema'', getExpenseParserJSONSchema)])])\<rparr>"
    using getPromptWithConfig_fails_closed
            [OF miss, of "answering ''intent''" "''expense-parser''" None ?fb]
          no_config
    by (auto simp: fallback_config_def)
  have 6: "fst (getPromptWithConfig (configured ''Answer in JSON.'' ?cfg) ''expense-parser'' None
                  None ?stale)
             = Inr \<lparr>prompt = ''Answer in JSON.'', config = ?cfg\<rparr>"
    using getPromptWithConfig_fails_closed [OF stale, of None None] with_config_stale
    by auto
  from miss off no_prompt empty with_config no_config stale 1 2 3 4 5 6 show ?thesis by blast
qed

text \<open>
  C7, as stated, fails: a store whose prompt carries the config \<^verbatim>\<open>false\<close> has a config, yet
  the result carries the caller's fallback config, since \<^verbatim>\<open>result.config || fallbackConfig\<close>
  tests the store's config for truthiness and not for presence.
\<close>

theorem getPromptWithConfig_falsy_config_counterexample:
  "fst (LangfuseClient_getPrompt (configured ''Answer in JSON.'' (Some (JBool False)))
          ''expense-parser'' None initial_world)
     = Inr (Some \<lparr>prompt = ''Answer in JSON.'', config = Some (JBool False)\<rparr>)
   \<and> fst (getPromptWithConfig (configured ''Answer in JSON.'' (Some (JBool False)))
            ''expense-parser'' (fallback_config getExpenseParserJSONSchema) None initial_world)
       = Inr \<lparr>prompt = ''Answer in JSON.'',
              config = Some (JObj [(''config'', JObj [(''schema'', getExpenseParserJSONSchema)])])\<rparr>"
  by code_simp

text \<open>
  C8. After a first call that missed the cache and fetched the prompt, a second call for
  the same name whose clock reading is less than the time to live (five minutes) after the
  entry's time stamp returns the same prompt and config without asking the store: the
  first call made exactly one fetch and the second none.
\<close>

theorem second_resolve_hits_cache:
  assumes first: "getPromptWithConfig E name fallback1 version1 w = (Inr p, w1)"
      and miss: "\<not> cache_hit E w name"
      and within: "clock E (ticks w1) - clock E (ticks w1 - 1) < cacheTTL"
  shows "trace w1 = trace w @ [LangfuseGetPrompt name (version_sent version1)]
       \<and> (\<exists>c. promptCache w1 name = Some c \<and> timestamp c = clock E (ticks w1 - 1))
       \<and> (\<exists>w2. getPromptWithConfig E name fallback2 version2 w1 = (Inr p, w2)
                \<and> trace w2 = trace w1)
       \<and> cacheTTL = 5 * 60 * 1000"
proof -
  let ?w0 = "case promptCache w name of None \<Rightarrow> w | Some c \<Rightarrow> w\<lparr>ticks := Suc (ticks w)\<rparr>"
  have tr0: "trace ?w0 = trace w" by (simp split: option.splits)
  from first miss have fc: "fetch_and_cache E name fallback1 version1 ?w0 = (Inr p, w1)"
    by (simp add: getPromptWithConfig_miss)
  then obtain r where r: "store_answer E name version1 ?w0 = Some r" "prompt r \<noteq> []"
      and p: "p = \<lparr>prompt = prompt r, config = or_else (config r) fallback1\<rparr>"
      and w1: "w1 = (emit (LangfuseGetPrompt name (version_sent version1)) ?w0)
               \<lparr>ticks := Suc (ticks ?w0),
                promptCache := (promptCache ?w0)
                  (name := Some \<lparr>prompt = prompt r, config = or_else (config r) fallback1,
                                  timestamp = clock E (ticks ?w0)\<rparr>)\<rparr>"
    by (auto simp: fetch_and_cache_eq split: option.splits if_splits)
  have t1: "trace w1 = trace w @ [LangfuseGetPrompt name (version_sent version1)]"
    by (simp add: w1 emit_def tr0)
  have entry: "\<exists>c. promptCache w1 name = Some c \<and> timestamp c = clock E (ticks w1 - 1)"
    by (simp add: w1)
  have hit: "cache_hit E w1 name"
    using within by (simp add: cache_hit_def w1)
  have "getPromptWithConfig E name fallback2 version2 w1 = (Inr p, w1\<lparr>ticks := Suc (ticks w1)\<rparr>)"
    by (simp add: getPromptWithConfig_hit [OF hit]) (simp add: w1 p)
  then show ?thesis using t1 entry by (simp add: cacheTTL_def)
qed

theorem second_resolve_hits_cache_witness:
  "\<not> cache_hit (example_env True (\<lambda>n. Inr (example_store n)) (\<lambda>r. says ''intent''))
        initial_world ''query-validator''
   \<and> fst (getPromptWithConfig (example_env True (\<lambda>n. Inr (example_store n)) (\<lambda>r. says ''intent''))
            ''query-validator'' None None initial_world)
       = Inr \<lparr>prompt = ''Request: {{user_request}} Query: {{ generated_query }}'', config = None\<rparr>
   \<and> fst (getPromptWithConfig (example_env True (\<lambda>n. Inr (example_store n)) (\<lambda>r. says ''intent''))
            ''query-validator'' None None
            (snd (getPromptWithConfig
                    (example_env True (\<lambda>n. Inr (example_store n)) (\<lambda>r. says ''intent''))
                    ''query-validator'' None None initial_world)))
       = Inr \<lparr>prompt = ''Request: {{user_request}} Query: {{ generated_query }}'', config = None\<rparr>
   \<and> trace (snd (getPromptWithConfig
                    (example_env True (\<lambda>n. Inr (example_store n)) (\<lambda>r. says ''intent''))
                    ''query-validator'' None None
                    (snd (getPromptWithConfig
                            (example_env True (\<lambda>n. Inr (example_store n)) (\<lambda>r. says ''intent''))
                            ''query-validator'' None None initial_world))))
       = [LangfuseGetPrompt ''query-validator'' None]"
proof -
  let ?E = "example_env True (\<lambda>n. Inr (example_store n)) (\<lambda>r. says ''intent'')"
  let ?p = "\<lparr>prompt = ''Request: {{user_request}} Query: {{ generated_query }}'', config = None\<rparr>"
  let ?w1 = "snd (getPromptWithConfig ?E ''query-validator'' None None initial_world)"
  have miss: "\<not> cache_hit ?E initial_world ''query-validator''"
    by (simp add: cache_hit_def initial_world_def)
  have res: "fst (getPromptWithConfig ?E ''query-validator'' None None initial_world) = Inr ?p"
    unfolding getPromptWithConfig_miss_result [OF miss]
    by (simp add: store_answer_def example_env_def example_store_def version_sent_def
          or_else_def truthy_opt_def)
  then have first: "getPromptWithConfig ?E ''query-validator'' None None initial_world = (Inr ?p, ?w1)"
    by (metis prod.collapse)
  have ticks1: "ticks ?w1 = 1"
    unfolding getPromptWithConfig_miss [OF miss] fetch_and_cache_eq
    by (simp add: store_answer_def example_env_def example_store_def version_sent_def
          initial_world_def)
  have within: "clock ?E (ticks ?w1) - clock ?E (ticks ?w1 - 1) < cacheTTL"
    by (simp add: ticks1 example_env_def cacheTTL_def)
  from second_resolve_hits_cache [OF first miss within, of None None] miss res
  show ?thesis
    by (auto simp: initial_world_def version_sent_def)
qed

text \<open>
  C2. A generated query whose type is not one of the six allowed types is rejected by
  \<^verbatim>\<open>validateQuery\<close> at once: the answer is false and the state is untouched, so no prompt
  has been fetched and the model has not been called.
\<close>

theorem validateQuery_rejects_disallowed:
  "query_type generatedQuery \<notin> set allowedQueryTypes \<Longrightarrow>
     validateQuery E naturalLanguageQuery generatedQuery w = (Inr False, w)
     \<and> allowedQueryTypes =
         [''rank_accounts_by_expense'', ''total_spending_by_category'',
          ''count_archived_transactions'', ''count_remaining_installments'',
          ''total_credit_card_debt'', ''rank_accounts_by_transaction_count'']"
  by (simp add: validateQuery_def allowedQueryTypes_def)

theorem validateQuery_rejects_disallowed_witness:
  "''delete_all_transactions'' \<notin> set allowedQueryTypes
   \<and> fst (validateQuery (example_env True (\<lambda>n. Inr (example_store n)) (\<lambda>r. says ''SAFE''))
            ''Delete everything''
            \<lparr>query_type = ''delete_all_transactions'', sort_order = None, limit = None,
             time_period = ''all_time'', filters = None, include_archived = False,
             credit_card_account_id = None\<rparr> initial_world) = Inr False
   \<and> trace (snd (validateQuery (example_env True (\<lambda>n. Inr (example_store n)) (\<lambda>r. says ''SAFE''))
            ''Delete everything''
            \<lparr>query_type = ''delete_all_transactions'', sort_order = None, limit = None,
             time_period = ''all_time'', filters = None, include_archived = False,
             credit_card_account_id = None\<rparr> initial_world)) = []"
proof -
  have notin: "''delete_all_transactions'' \<notin> set allowedQueryTypes"
    by (simp add: allowedQueryTypes_def)
  from validateQuery_rejects_disallowed
         [of "\<lparr>query_type = ''delete_all_transactions'', sort_order = None, limit = None,
               time_period = ''all_time'', filters = None, include_archived = False,
               credit_card_account_id = None\<rparr>"
             "example_env True (\<lambda>n. Inr (example_store n)) (\<lambda>r. says ''SAFE'')"
             "''Delete everything''" initial_world] notin
  show ?thesis by (simp add: initial_world_def)
qed

subsection \<open>Effects of the model gateway\<close>

lemma chat_world:
  "snd (chat E msgs mdl options w) =
     emit (ChatCompletionsCreate (requestParams E msgs mdl options)) w"
  by (simp add: chat_def try_catch_def await_def Let_def
           split: sum.splits list.splits option.splits)

lemma processText_world:
  "\<exists>req. snd (processText E userMessage options w) = emit (ChatCompletionsCreate req) w"
  by (auto simp: processText_def Let_def chat_world)

lemma extractStructured_world:
  "\<exists>req. snd (extractStructured E txt sysPrompt jsonSchema zodSchema w) =
     emit (ChatCompletionsCreate req) w"
proof -
  have "snd (extractStructured E txt sysPrompt jsonSchema zodSchema w) =
        snd (chat E [(system, sysPrompt), (user, txt)] (Some (getModel E model_text_fast))
              \<lparr>opt_temperature = Some (2 / 10), opt_maxTokens = Some 1000,
               opt_responseFormat = Some (json_schema (fst jsonSchema) True (snd jsonSchema))\<rparr> w)"
    by (simp add: extractStructured_def await_def Let_def split: prod.splits sum.splits)
  then show ?thesis by (auto simp: chat_world)
qed

text \<open>
  Fetching a prompt and asking the model touch neither repository: a selection of the
  effects that leaves both kinds of event out is the same before and after.
\<close>

lemma getPromptWithConfig_filter:
  assumes "\<And>n v. \<not> P (LangfuseGetPrompt n v)"
  shows "filter P (trace (snd (getPromptWithConfig E name fb version w))) = filter P (trace w)"
  by (simp add: getPromptWithConfig_trace assms)

lemma getPrompt_filter:
  assumes "\<And>n v. \<not> P (LangfuseGetPrompt n v)"
  shows "filter P (trace (snd (getPrompt E name version w))) = filter P (trace w)"
proof -
  have "snd (getPrompt E name version w) = snd (getPromptWithConfig E name None version w)"
    by (simp add: getPrompt_def await_def split: prod.splits sum.splits)
  then show ?thesis by (simp add: getPromptWithConfig_filter assms)
qed

lemma processText_filter:
  assumes "\<And>r. \<not> P (ChatCompletionsCreate r)"
  shows "filter P (trace (snd (processText E userMessage options w))) = filter P (trace w)"
  using processText_world [of E userMessage options w] by (auto simp: emit_def assms)

lemma extractStructured_filter:
  assumes "\<And>r. \<not> P (ChatCompletionsCreate r)"
  shows "filter P (trace (snd (extractStructured E txt sysPrompt jsonSchema zodSchema w)))
           = filter P (trace w)"
  using extractStructured_world [of E "txt" sysPrompt jsonSchema zodSchema w]
  by (auto simp: emit_def assms)

lemma generateQuery_filter:
  assumes "\<And>n v. \<not> P (LangfuseGetPrompt n v)" and "\<And>r. \<not> P (ChatCompletionsCreate r)"
  shows "filter P (trace (snd (generateQuery E q w))) = filter P (trace w)"
proof (cases "getPromptWithConfig E ''query-generator''
                (fallback_config getQueryGeneratorJSONSchema) None w")
  case (Pair r w1)
  have w1: "filter P (trace w1) = filter P (trace w)"
    using getPromptWithConfig_filter [of P E "''query-generator''"
            "fallback_config getQueryGeneratorJSONSchema" None w] assms(1) Pair
    by simp
  show ?thesis
  proof (cases r)
    case (Inl e)
    then show ?thesis using Pair w1 by (simp add: generateQuery_def try_catch_def await_def)
  next
    case (Inr promptData)
    have "snd (generateQuery E q w) =
          snd (extractStructured E q (prompt promptData)
                 (''query_generator'', schema_or (config promptData) getQueryGeneratorJSONSchema)
                 QueryGeneratorSchema w1)"
      using Pair Inr
      by (simp add: generateQuery_def try_catch_def await_def Let_def split: prod.splits sum.splits)
    then show ?thesis using w1 by (simp add: extractStructured_filter assms(2))
  qed
qed

lemma validateQuery_filter:
  assumes "\<And>n v. \<not> P (LangfuseGetPrompt n v)" and "\<And>r. \<not> P (ChatCompletionsCreate r)"
  shows "filter P (trace (snd (validateQuery E nlq q w))) = filter P (trace w)"
proof (cases "query_type q \<in> set allowedQueryTypes")
  case False
  then show ?thesis by (simp add: validateQuery_def)
next
  case True
  show ?thesis
  proof (cases "getPrompt E ''query-validator'' None w")
    case (Pair r w1)
    have w1: "filter P (trace w1) = filter P (trace w)"
      using getPrompt_filter [of P E "''query-validator''" None w] assms(1) Pair by simp
    show ?thesis
    proof (cases r)
      case (Inl e)
      then show ?thesis using Pair w1 True by (simp add: validateQuery_def await_def)
    next
      case (Inr promptTemplate)
      let ?opts = "\<lparr>tp_model = None,
                    systemPrompt = Some (compilePrompt promptTemplate
                       [(''user_request'', nlq), (''generated_query'', JSON_stringify E q)]),
                    tp_temperature = Some (1 / 10), tp_maxTokens = Some 10\<rparr>"
      have "snd (validateQuery E nlq q w) = snd (processText E validator_question ?opts w1)"
        using Pair Inr True
        by (simp add: validateQuery_def await_def Let_def split: prod.splits sum.splits)
      then show ?thesis using w1 by (simp add: processText_filter assms(2))
    qed
  qed
qed

lemma validateQuery_True:
  assumes "validateQuery E nlq q w = (Inr True, w2)"
  shows "query_type q \<in> set allowedQueryTypes
       \<and> (\<exists>promptTemplate w1 validationResponse.
             getPrompt E ''query-validator'' None w = (Inr promptTemplate, w1)
           \<and> processText E validator_question
               \<lparr>tp_model = None,
                systemPrompt = Some (compilePrompt promptTemplate
                   [(''user_request'', nlq), (''generated_query'', JSON_stringify E q)]),
                tp_temperature = Some (1 / 10), tp_maxTokens = Some 10\<rparr> w1
               = (Inr validationResponse, w2)
           \<and> toUpperCase (trim (content validationResponse)) = ''SAFE'')"
  using assms
  by (auto simp: validateQuery_def await_def Let_def split: if_splits prod.splits sum.splits)

subsection \<open>Query safety gate\<close>

lemma executeQuery_only_reads:
  "executed (snd (executeQuery E q w)) = executed w
   \<or> (\<exists>method. executed (snd (executeQuery E q w)) = executed w @ [RepositoryRead method q])"
  by (auto simp: executeQuery_def executed_def await_def emit_def split: option.splits sum.splits)

text \<open>
  C1. Running \<^verbatim>\<open>processNaturalLanguageQuery\<close>: if the database has been read, then the
  generated query has an allowed type and \<^verbatim>\<open>validateQuery\<close> returned true on the model's
  verdict SAFE; and if \<^verbatim>\<open>validateQuery\<close> returns false, the call ends in the error "Query
  was deemed unsafe to run." with no read of the database and no response text.
\<close>

theorem execution_requires_both_stages:
  assumes "processNaturalLanguageQuery E query w = (result, w')"
  shows "(executed w' \<noteq> executed w \<longrightarrow>
            (\<exists>generatedQuery w1 promptTemplate w2 validationResponse w3.
                generateQuery E query w = (Inr generatedQuery, w1)
              \<and> query_type generatedQuery \<in> set allowedQueryTypes
              \<and> getPrompt E ''query-validator'' None w1 = (Inr promptTemplate, w2)
              \<and> processText E validator_question
                  \<lparr>tp_model = None,
                   systemPrompt = Some (compilePrompt promptTemplate
                      [(''user_request'', query),
                       (''generated_query'', JSON_stringify E generatedQuery)]),
                   tp_temperature = Some (1 / 10), tp_maxTokens = Some 10\<rparr> w2
                  = (Inr validationResponse, w3)
              \<and> toUpperCase (trim (content validationResponse)) = ''SAFE''
              \<and> validateQuery E query generatedQuery w1 = (Inr True, w3)))
       \<and> (\<forall>generatedQuery w1 w2.
              generateQuery E query w = (Inr generatedQuery, w1)
            \<and> validateQuery E query generatedQuery w1 = (Inr False, w2)
            \<longrightarrow> result = Inl (Error ''Query was deemed unsafe to run.'')
                \<and> w' = w2 \<and> executed w' = executed w)"
proof (cases "generateQuery E query w")
  case (Pair g w1)
  have ex1: "executed w1 = executed w"
    using generateQuery_filter [of is_read E query w] Pair by (simp add: executed_def)
  show ?thesis
  proof (cases g)
    case (Inl e)
    then show ?thesis
      using assms Pair ex1 by (auto simp: processNaturalLanguageQuery_def await_def)
  next
    case (Inr generatedQuery)
    show ?thesis
    proof (cases "validateQuery E query generatedQuery w1")
      case v: (Pair verdict w2)
      have ex2: "executed w2 = executed w"
        using validateQuery_filter [of is_read E query generatedQuery w1] v ex1
        by (simp add: executed_def)
      show ?thesis
      proof (cases verdict)
        case (Inl e)
        then show ?thesis
          using assms Pair Inr v ex2 by (auto simp: processNaturalLanguageQuery_def await_def)
      next
        case safe: (Inr isSafe)
        show ?thesis
        proof (cases isSafe)
          case False
          then show ?thesis
            using assms Pair Inr v safe ex2
            by (auto simp: processNaturalLanguageQuery_def await_def)
        next
          case True
          from validateQuery_True [of E query generatedQuery w1 w2] v safe True
          obtain promptTemplate wa validationResponse where
            "query_type generatedQuery \<in> set allowedQueryTypes"
            "getPrompt E ''query-validator'' None w1 = (Inr promptTemplate, wa)"
            "processText E validator_question
                  \<lparr>tp_model = None,
                   systemPrompt = Some (compilePrompt promptTemplate
                      [(''user_request'', query),
                       (''generated_query'', JSON_stringify E generatedQuery)]),
                   tp_temperature = Some (1 / 10), tp_maxTokens = Some 10\<rparr> wa
                  = (Inr validationResponse, w2)"
            "toUpperCase (trim (content validationResponse)) = ''SAFE''"
            by auto
          then show ?thesis
            using Pair Inr v safe True by auto
        qed
      qed
    qed
  qed
qed

theorem execution_requires_both_stages_witness:
  "executed (snd (processNaturalLanguageQuery
       (example_env True (\<lambda>n. Inr (example_store n)) (scripted (says ''archived'') (says '' safe '')))
       ''How many archived transactions do I have?'' initial_world)) \<noteq> executed initial_world
   \<and> fst (processNaturalLanguageQuery
       (example_env True (\<lambda>n. Inr (example_store n)) (scripted (says ''archived'') (says '' safe '')))
       ''How many archived transactions do I have?'' initial_world)
       = Inr ''You have 3 archived transactions.''
   \<and> fst (validateQuery
       (example_env True (\<lambda>n. Inr (example_store n)) (scripted (says ''archived'') (says ''DESTRUCTIVE'')))
       ''How many archived transactions do I have?''
       (projr (fst (generateQuery
          (example_env True (\<lambda>n. Inr (example_store n)) (scripted (says ''archived'') (says ''DESTRUCTIVE'')))
          ''How many archived transactions do I have?'' initial_world)))
       (snd (generateQuery
          (example_env True (\<lambda>n. Inr (example_store n)) (scripted (says ''archived'') (says ''DESTRUCTIVE'')))
          ''How many archived transactions do I have?'' initial_world))) = Inr False
   \<and> fst (processNaturalLanguageQuery
       (example_env True (\<lambda>n. Inr (example_store n)) (scripted (says ''archived'') (says ''DESTRUCTIVE'')))
       ''How many archived transactions do I have?'' initial_world)
       = Inl (Error ''Query was deemed unsafe to run.'')
   \<and> executed (snd (processNaturalLanguageQuery
       (example_env True (\<lambda>n. Inr (example_store n)) (scripted (says ''archived'') (says ''DESTRUCTIVE'')))
       ''How many archived transactions do I have?'' initial_world)) = []"
proof -
  let ?safe = "example_env True (\<lambda>n. Inr (example_store n)) (scripted (says ''archived'') (says '' safe ''))"
  let ?unsafe = "example_env True (\<lambda>n. Inr (example_store n)) (scripted (says ''archived'') (says ''DESTRUCTIVE''))"
  let ?q = "''How many archived transactions do I have?''"
  have run: "processNaturalLanguageQuery ?safe ?q initial_world =
               (fst (processNaturalLanguageQuery ?safe ?q initial_world),
                snd (processNaturalLanguageQuery ?safe ?q initial_world))"
    by simp
  have a: "executed (snd (processNaturalLanguageQuery ?safe ?q initial_world)) \<noteq> executed initial_world"
    by code_simp
  have b: "fst (processNaturalLanguageQuery ?safe ?q initial_world)
             = Inr ''You have 3 archived transactions.''"
    by code_simp
  have c: "fst (validateQuery ?unsafe ?q
             (projr (fst (generateQuery ?unsafe ?q initial_world)))
             (snd (generateQuery ?unsafe ?q initial_world))) = Inr False"
    by code_simp
  have d: "fst (processNaturalLanguageQuery ?unsafe ?q initial_world)
             = Inl (Error ''Query was deemed unsafe to run.'')"
    by code_simp
  have e: "executed (snd (processNaturalLanguageQuery ?unsafe ?q initial_world)) = []"
    by code_simp
  from execution_requires_both_stages [OF run] a b c d e show ?thesis by blast
qed

text \<open>
  C3. For a query of an allowed type, once the validator prompt has been resolved and the
  model has answered, \<^verbatim>\<open>validateQuery\<close> returns true exactly when the answer, trimmed and
  in upper case, is the string SAFE; with any other answer it returns false.
\<close>

theorem validateQuery_model_stage:
  assumes "query_type generatedQuery \<in> set allowedQueryTypes"
      and "getPrompt E ''query-validator'' None w = (Inr promptTemplate, w1)"
      and "processText E validator_question
             \<lparr>tp_model = None,
              systemPrompt = Some (compilePrompt promptTemplate
                 [(''user_request'', naturalLanguageQuery),
                  (''generated_query'', JSON_stringify E generatedQuery)]),
              tp_temperature = Some (1 / 10), tp_maxTokens = Some 10\<rparr> w1
           = (Inr validationResponse, w2)"
  shows "validateQuery E naturalLanguageQuery generatedQuery w =
           (Inr (toUpperCase (trim (content validationResponse)) = ''SAFE''), w2)"
  using assms by (simp add: validateQuery_def await_def)

text \<open>
  The decision on some answers: white space around the word is dropped, also a no-break
  space (bytes C2 A0), a byte-order mark (bytes EF BB BF) and an ideographic space (bytes
  E3 80 80); the upper case of a long s (bytes C5 BF) is S; any other text around the word
  is kept, and so is a zero-width space (bytes E2 80 8B), which is not white space.
\<close>

lemma decision_examples:
  "toUpperCase (trim ''SAFE'') = ''SAFE''"
  "toUpperCase (trim '' safe '') = ''SAFE''"
  "toUpperCase (trim ([CHR 0xC2, CHR 0xA0] @ ''safe'' @ [CHR 0xC2, CHR 0xA0])) = ''SAFE''"
  "toUpperCase (trim ([CHR 0xEF, CHR 0xBB, CHR 0xBF] @ ''Safe'' @ [CHR 0x0D, CHR 0x0A]))
     = ''SAFE''"
  "toUpperCase (trim ([CHR 0x09] @ ''sAfE'' @ [CHR 0xE3, CHR 0x80, CHR 0x80])) = ''SAFE''"
  "toUpperCase (trim ([CHR 0xC5, CHR 0xBF] @ ''afe'')) = ''SAFE''"
  "toUpperCase (trim ''The query is SAFE'') \<noteq> ''SAFE''"
  "toUpperCase (trim ''SAFE.'') \<noteq> ''SAFE''"
  "toUpperCase (trim ''UNSAFE'') \<noteq> ''SAFE''"
  "toUpperCase (trim ''DESTRUCTIVE'') \<noteq> ''SAFE''"
  "toUpperCase (trim ([CHR 0xE2, CHR 0x80, CHR 0x8B] @ ''SAFE'')) \<noteq> ''SAFE''"
  "toUpperCase (trim ([CHR 0xC3, CHR 0x9F] @ ''AFE'')) \<noteq> ''SAFE''"
  "toUpperCase (trim []) \<noteq> ''SAFE''"
  by code_simp+

lemma run_result: "fst r = a \<Longrightarrow> r = (a, snd r)"
  by (cases r) simp

theorem validateQuery_model_stage_witness:
  "''count_archived_transactions'' \<in> set allowedQueryTypes
   \<and> fst (validateQuery (answering '' safe '')
        ''How many archived transactions do I have?''
        \<lparr>query_type = ''count_archived_transactions'', sort_order = None, limit = None,
         time_period = ''all_time'', filters = None, include_archived = False,
         credit_card_account_id = None\<rparr> initial_world) = Inr True
   \<and> fst (validateQuery (answering ([CHR 0xC2, CHR 0xA0] @ ''safe'' @ [CHR 0xC2, CHR 0xA0]))
        ''How many archived transactions do I have?''
        \<lparr>query_type = ''count_archived_transactions'', sort_order = None, limit = None,
         time_period = ''all_time'', filters = None, include_archived = False,
         credit_card_account_id = None\<rparr> initial_world) = Inr True
   \<and> fst (validateQuery (answering ''The query is SAFE'')
        ''How many archived transactions do I have?''
        \<lparr>query_type = ''count_archived_transactions'', sort_order = None, limit = None,
         time_period = ''all_time'', filters = None, include_archived = False,
         credit_card_account_id = None\<rparr> initial_world) = Inr False"
proof -
  let ?q = "''How many archived transactions do I have?''"
  let ?g = "\<lparr>query_type = ''count_archived_transactions'', sort_order = None, limit = None,
             time_period = ''all_time'', filters = None, include_archived = False,
             credit_card_account_id = None\<rparr>"
  let ?t = "''Request: {{user_request}} Query: {{ generated_query }}''"
  let ?opts = "\<lambda>E. \<lparr>tp_model = None,
              systemPrompt = Some (compilePrompt ?t
                 [(''user_request'', ?q), (''generated_query'', JSON_stringify E ?g)]),
              tp_temperature = Some (1 / 10), tp_maxTokens = Some 10\<rparr>"
  let ?w1 = "\<lambda>E. snd (getPrompt E ''query-validator'' None initial_world)"
  let ?w2 = "\<lambda>E. snd (processText E validator_question (?opts E) (?w1 E))"
  let ?plain = "answering '' safe ''"
  let ?nbsp = "answering ([CHR 0xC2, CHR 0xA0] @ ''safe'' @ [CHR 0xC2, CHR 0xA0])"
  let ?phrase = "answering ''The query is SAFE''"
  have allowed: "query_type ?g \<in> set allowedQueryTypes"
    by (simp add: allowedQueryTypes_def)

  have "fst (getPrompt ?plain ''query-validator'' None initial_world) = Inr ?t"
    by code_simp
  then have p1: "getPrompt ?plain ''query-validator'' None initial_world = (Inr ?t, ?w1 ?plain)"
    by (rule run_result)
  have "fst (processText ?plain validator_question (?opts ?plain) (?w1 ?plain))
          = Inr \<lparr>content = '' safe '', response_model = ''example-model''\<rparr>"
    by code_simp
  then have m1: "processText ?plain validator_question (?opts ?plain) (?w1 ?plain)
          = (Inr \<lparr>content = '' safe '', response_model = ''example-model''\<rparr>, ?w2 ?plain)"
    by (rule run_result)
  have r1: "fst (validateQuery ?plain ?q ?g initial_world) = Inr True"
    using validateQuery_model_stage [OF allowed p1 m1]
    by (simp add: decision_examples)

  have "fst (getPrompt ?nbsp ''query-validator'' None initial_world) = Inr ?t"
    by code_simp
  then have p2: "getPrompt ?nbsp ''query-validator'' None initial_world = (Inr ?t, ?w1 ?nbsp)"
    by (rule run_result)
  have "fst (processText ?nbsp validator_question (?opts ?nbsp) (?w1 ?nbsp))
          = Inr \<lparr>content = [CHR 0xC2, CHR 0xA0] @ ''safe'' @ [CHR 0xC2, CHR 0xA0],
                 response_model = ''example-model''\<rparr>"
    by code_simp
  then have m2: "processText ?nbsp validator_question (?opts ?nbsp) (?w1 ?nbsp)
          = (Inr \<lparr>content = [CHR 0xC2, CHR 0xA0] @ ''safe'' @ [CHR 0xC2, CHR 0xA0],
                  response_model = ''example-model''\<rparr>, ?w2 ?nbsp)"
    by (rule run_result)
  have r2: "fst (validateQuery ?nbsp ?q ?g initial_world) = Inr True"
    using validateQuery_model_stage [OF allowed p2 m2] decision_examples(3)
    by simp

  have "fst (getPrompt ?phrase ''query-validator'' None initial_world) = Inr ?t"
    by code_simp
  then have p3: "getPrompt ?phrase ''query-validator'' None initial_world = (Inr ?t, ?w1 ?phrase)"
    by (rule run_result)
  have "fst (processText ?phrase validator_question (?opts ?phrase) (?w1 ?phrase))
          = Inr \<lparr>content = ''The query is SAFE'', response_model = ''example-model''\<rparr>"
    by code_simp
  then have m3: "processText ?phrase validator_question (?opts ?phrase) (?w1 ?phrase)
          = (Inr \<lparr>content = ''The query is SAFE'', response_model = ''example-model''\<rparr>,
             ?w2 ?phrase)"
    by (rule run_result)
  have r3: "fst (validateQuery ?phrase ?q ?g initial_world) = Inr False"
    using validateQuery_model_stage [OF allowed p3 m3]
    by (simp add: decision_examples)

  from allowed r1 r2 r3 show ?thesis by simp
qed

subsection \<open>compilePrompt\<close>

text \<open>A value without a dollar sign is inserted as it is.\<close>

lemma GetSubstitution_plain:
  "CHR ''$'' \<notin> set val \<Longrightarrow> GetSubstitution matched preceding following val = val"
  by (induction matched preceding following val rule: GetSubstitution.induct) auto

text \<open>A text in which no placeholder for the key begins is left as it is.\<close>

lemma replace_scan_no_match:
  "(\<And>k. match_placeholder key (drop k s) = None) \<Longrightarrow> replace_scan key val preceding 0 s = s"
proof (induction s arbitrary: preceding)
  case Nil
  then show ?case by simp
next
  case (Cons c cs)
  have here: "match_placeholder key (c # cs) = None" using Cons.prems [of 0] by simp
  have rest: "\<And>k. match_placeholder key (drop k cs) = None" using Cons.prems [of "Suc k" for k] by simp
  show ?case using here Cons.IH [OF rest] by simp
qed

lemma compilePrompt_stable:
  assumes "\<And>key k. key \<in> fst ` set variables \<Longrightarrow> match_placeholder key (drop k template) = None"
  shows "compilePrompt template variables = template"
  using assms
proof (induction variables)
  case Nil
  then show ?case by (simp add: compilePrompt_def)
next
  case (Cons kv variables)
  obtain key val where kv: "kv = (key, val)" by (cases kv)
  have "replace_placeholder key val template = template"
    using Cons.prems [of key] by (simp add: replace_placeholder_def replace_scan_no_match kv)
  moreover have "compilePrompt template variables = template"
    using Cons by simp
  ultimately show ?case by (simp add: compilePrompt_def kv)
qed

lemma compilePrompt_examples:
  "compilePrompt ''Caption: {{caption}}, again {{  caption }}.'' [(''caption'', ''x'')]
     = ''Caption: x, again x.''"
  "compilePrompt ''Caption: {{caption}}'' [(''other'', ''x'')] = ''Caption: {{caption}}''"
  "compilePrompt (compilePrompt ''Caption: {{caption}}'' [(''caption'', ''x'')]) [(''caption'', ''x'')]
     = ''Caption: x''"
  by code_simp+

text \<open>
  C9. \<^verbatim>\<open>compilePrompt\<close> hands the value to \<^verbatim>\<open>replace\<close> as the replacement string, where a
  dollar sign is read as a pattern: the value \<^verbatim>\<open>US$$ 50\<close> is inserted as \<^verbatim>\<open>US$ 50\<close>, and
  the value \<^verbatim>\<open>$&\<close> puts the placeholder back. So an occurrence of the placeholder is not
  always replaced by the value.
\<close>

theorem compilePrompt_dollar_patterns:
  "compilePrompt ''Caption: {{caption}}'' [(''caption'', ''US$$ 50'')] = ''Caption: US$ 50''
   \<and> compilePrompt ''Caption: {{caption}}.'' [(''caption'', ''$&'')] = ''Caption: {{caption}}.''"
  by code_simp

subsection \<open>Intent classification\<close>

lemma OrchestratorDecisionSchema_range:
  "OrchestratorDecisionSchema j = Inr d \<Longrightarrow> 0 \<le> decision_confidence d \<and> decision_confidence d \<le> 1"
  by (auto simp: OrchestratorDecisionSchema_def z_refine_def z_number_def
           split: json.splits option.splits if_splits)

text \<open>
  C4. \<^verbatim>\<open>analyzeIntent\<close> always returns a decision. When fetching the prompt, the model
  call, \<^verbatim>\<open>JSON.parse\<close> or the schema validation fails, the decision is the one with intent
  \<open>unknown\<close>, confidence 0 and the reasoning "Failed to analyze intent"; when all four
  succeed, it is the decision the schema validation returned.
\<close>

theorem analyzeIntent_never_throws:
  "(\<exists>decision w'. analyzeIntent E userMessage w = (Inr decision, w'))
   \<and> (\<forall>e w1. getPromptWithConfig E ''orchestrator-intent''
                 (fallback_config getOrchestratorJSONSchema) None w = (Inl e, w1)
         \<longrightarrow> analyzeIntent E userMessage w = (Inr failed_to_analyze, w1))
   \<and> (\<forall>promptData w1.
         getPromptWithConfig E ''orchestrator-intent''
           (fallback_config getOrchestratorJSONSchema) None w = (Inr promptData, w1)
         \<longrightarrow> (\<forall>e w2.
                chat E [(system, prompt promptData), (user, userMessage)]
                  (Some (getModel E model_text_fast))
                  (intent_options (schema_or (config promptData) getOrchestratorJSONSchema)) w1
                  = (Inl e, w2)
                \<longrightarrow> analyzeIntent E userMessage w = (Inr failed_to_analyze, w2))
           \<and> (\<forall>response w2.
                chat E [(system, prompt promptData), (user, userMessage)]
                  (Some (getModel E model_text_fast))
                  (intent_options (schema_or (config promptData) getOrchestratorJSONSchema)) w1
                  = (Inr response, w2)
                \<longrightarrow> (\<forall>e. JSON_parse E (stripMarkdownCodeFences (content response)) = Inl e
                       \<longrightarrow> analyzeIntent E userMessage w = (Inr failed_to_analyze, w2))
                  \<and> (\<forall>parsed.
                       JSON_parse E (stripMarkdownCodeFences (content response)) = Inr parsed
                       \<longrightarrow> (\<forall>e. OrchestratorDecisionSchema parsed = Inl e
                              \<longrightarrow> analyzeIntent E userMessage w = (Inr failed_to_analyze, w2))
                         \<and> (\<forall>decision. OrchestratorDecisionSchema parsed = Inr decision
                              \<longrightarrow> analyzeIntent E userMessage w = (Inr decision, w2)))))
   \<and> failed_to_analyze =
        \<lparr>intent = unknown, decision_confidence = 0, reasoning = Some ''Failed to analyze intent''\<rparr>"
  by (auto simp: analyzeIntent_def analyzeIntent_body_def try_catch_def await_def Let_def
                 failed_to_analyze_def
           split: prod.splits sum.splits)

theorem analyzeIntent_never_throws_witness:
  "fst (analyzeIntent (example_env False (\<lambda>n. Inr (example_store n)) (\<lambda>r. says ''intent''))
          ''Spent $50 on groceries'' initial_world) = Inr failed_to_analyze
   \<and> fst (analyzeIntent (example_env True (\<lambda>n. Inr (example_store n)) (\<lambda>r. Inl (Error ''timeout'')))
          ''Spent $50 on groceries'' initial_world) = Inr failed_to_analyze
   \<and> fst (analyzeIntent (example_env True (\<lambda>n. Inr (example_store n)) (\<lambda>r. says ''not json''))
          ''Spent $50 on groceries'' initial_world) = Inr failed_to_analyze
   \<and> fst (analyzeIntent (example_env True (\<lambda>n. Inr (example_store n)) (\<lambda>r. says ''odd intent''))
          ''Spent $50 on groceries'' initial_world) = Inr failed_to_analyze
   \<and> fst (analyzeIntent (example_env True (\<lambda>n. Inr (example_store n)) (\<lambda>r. says ''intent''))
          ''Spent $50 on groceries'' initial_world)
       = Inr \<lparr>intent = track_expense, decision_confidence = 95 / 100, reasoning = None\<rparr>"
proof -
  let ?m = "''Spent $50 on groceries''"
  let ?fb = "fallback_config getOrchestratorJSONSchema"
  let ?pd = "\<lparr>prompt = ''Answer in JSON.'', config = ?fb\<rparr>"
  let ?gp = "\<lambda>E. getPromptWithConfig E ''orchestrator-intent'' ?fb None initial_world"
  let ?chat = "\<lambda>E. chat E [(system, prompt ?pd), (user, ?m)] (Some (getModel E model_text_fast))
                      (intent_options (schema_or (config ?pd) getOrchestratorJSONSchema))
                      (snd (?gp E))"
  let ?Ea = "example_env False (\<lambda>n. Inr (example_store n)) (\<lambda>r. says ''intent'')"
  let ?Eb = "example_env True (\<lambda>n. Inr (example_store n)) (\<lambda>r. Inl (Error ''timeout''))"
  let ?Ec = "example_env True (\<lambda>n. Inr (example_store n)) (\<lambda>r. says ''not json'')"
  let ?Ed = "example_env True (\<lambda>n. Inr (example_store n)) (\<lambda>r. says ''odd intent'')"
  let ?Ee = "example_env True (\<lambda>n. Inr (example_store n)) (\<lambda>r. says ''intent'')"

  have "fst (?gp ?Ea) = Inl (prompt_not_found ''orchestrator-intent'')" by code_simp
  then have gp_a: "?gp ?Ea = (Inl (prompt_not_found ''orchestrator-intent''), snd (?gp ?Ea))"
    by (rule run_result)
  have a: "fst (analyzeIntent ?Ea ?m initial_world) = Inr failed_to_analyze"
    using analyzeIntent_never_throws [of ?Ea ?m initial_world, THEN conjunct2, THEN conjunct1,
            rule_format, OF gp_a]
    by simp

  have "fst (?gp ?Eb) = Inr ?pd" by code_simp
  then have gp_b: "?gp ?Eb = (Inr ?pd, snd (?gp ?Eb))" by (rule run_result)
  have "fst (?chat ?Eb) = Inl (Error ''AI request failed: timeout'')" by code_simp
  then have chat_b: "?chat ?Eb = (Inl (Error ''AI request failed: timeout''), snd (?chat ?Eb))"
    by (rule run_result)
  have b: "fst (analyzeIntent ?Eb ?m initial_world) = Inr failed_to_analyze"
    using analyzeIntent_never_throws [of ?Eb ?m initial_world, THEN conjunct2, THEN conjunct2,
            THEN conjunct1, rule_format, OF gp_b, THEN conjunct1, rule_format, OF chat_b]
    by simp

  have "fst (?gp ?Ec) = Inr ?pd" by code_simp
  then have gp_c: "?gp ?Ec = (Inr ?pd, snd (?gp ?Ec))" by (rule run_result)
  have "fst (?chat ?Ec) = Inr \<lparr>content = ''not json'', response_model = ''example-model''\<rparr>"
    by code_simp
  then have chat_c: "?chat ?Ec = (Inr \<lparr>content = ''not json'', response_model = ''example-model''\<rparr>,
                                  snd (?chat ?Ec))"
    by (rule run_result)
  have parse_c: "JSON_parse ?Ec (stripMarkdownCodeFences
                   (content \<lparr>content = ''not json'', response_model = ''example-model''\<rparr>))
                 = Inl (Error ''SyntaxError'')"
    by code_simp
  have c: "fst (analyzeIntent ?Ec ?m initial_world) = Inr failed_to_analyze"
    using analyzeIntent_never_throws [of ?Ec ?m initial_world, THEN conjunct2, THEN conjunct2,
            THEN conjunct1, rule_format, OF gp_c, THEN conjunct2, rule_format, OF chat_c,
            THEN conjunct1, rule_format, OF parse_c]
    by simp

  have "fst (?gp ?Ed) = Inr ?pd" by code_simp
  then have gp_d: "?gp ?Ed = (Inr ?pd, snd (?gp ?Ed))" by (rule run_result)
  have "fst (?chat ?Ed) = Inr \<lparr>content = ''odd intent'', response_model = ''example-model''\<rparr>"
    by code_simp
  then have chat_d: "?chat ?Ed = (Inr \<lparr>content = ''odd intent'', response_model = ''example-model''\<rparr>,
                                  snd (?chat ?Ed))"
    by (rule run_result)
  have parse_d: "JSON_parse ?Ed (stripMarkdownCodeFences
                   (content \<lparr>content = ''odd intent'', response_model = ''example-model''\<rparr>))
                 = Inr (JObj [(''intent'', JStr ''delete_everything''), (''confidence'', JNum 1)])"
    by code_simp
  have zod_d: "OrchestratorDecisionSchema
                 (JObj [(''intent'', JStr ''delete_everything''), (''confidence'', JNum 1)])
               = Inl ZodError"
    by code_simp
  have d: "fst (analyzeIntent ?Ed ?m initial_world) = Inr failed_to_analyze"
    using analyzeIntent_never_throws [of ?Ed ?m initial_world, THEN conjunct2, THEN conjunct2,
            THEN conjunct1, rule_format, OF gp_d, THEN conjunct2, rule_format, OF chat_d,
            THEN conjunct2, rule_format, OF parse_d, THEN conjunct1, rule_format, OF zod_d]
    by simp

  have "fst (?gp ?Ee) = Inr ?pd" by code_simp
  then have gp_e: "?gp ?Ee = (Inr ?pd, snd (?gp ?Ee))" by (rule run_result)
  have "fst (?chat ?Ee) = Inr \<lparr>content = ''intent'', response_model = ''example-model''\<rparr>"
    by code_simp
  then have chat_e: "?chat ?Ee = (Inr \<lparr>content = ''intent'', response_model = ''example-model''\<rparr>,
                                  snd (?chat ?Ee))"
    by (rule run_result)
  have parse_e: "JSON_parse ?Ee (stripMarkdownCodeFences
                   (content \<lparr>content = ''intent'', response_model = ''example-model''\<rparr>))
                 = Inr (JObj [(''intent'', JStr ''track_expense''), (''confidence'', JNum (95 / 100))])"
    by code_simp
  have zod_e: "OrchestratorDecisionSchema
                 (JObj [(''intent'', JStr ''track_expense''), (''confidence'', JNum (95 / 100))])
               = Inr \<lparr>intent = track_expense, decision_confidence = 95 / 100, reasoning = None\<rparr>"
    by code_simp
  have e: "fst (analyzeIntent ?Ee ?m initial_world)
             = Inr \<lparr>intent = track_expense, decision_confidence = 95 / 100, reasoning = None\<rparr>"
    using analyzeIntent_never_throws [of ?Ee ?m initial_world, THEN conjunct2, THEN conjunct2,
            THEN conjunct1, rule_format, OF gp_e, THEN conjunct2, rule_format, OF chat_e,
            THEN conjunct2, rule_format, OF parse_e, THEN conjunct2, rule_format, OF zod_e]
    by simp

  from a b c d e show ?thesis by simp
qed

subsection \<open>Installments of a credit-card purchase\<close>

lemma create_installments_rows:
  "create_installments data groupId installmentAmount i left w =
     (Inr (map (installment_row data groupId installmentAmount) [i..<i + left]),
      w\<lparr>trace := trace w
             @ map (\<lambda>j. CreditCardCreate (installment_row data groupId installmentAmount j))
                 [i..<i + left]\<rparr>)"
proof (induction left arbitrary: i w)
  case 0
  then show ?case by simp
next
  case (Suc left)
  have split: "[i..<i + Suc left] = i # [Suc i..<Suc i + left]"
    by (simp add: upt_conv_Cons)
  show ?case
    by (simp only: create_installments.simps split)
       (simp add: Suc.IH await_def CreditCardRepository_create_def emit_def)
qed

text \<open>
  With a credit-card account and a known category, a purchase in \<open>N\<close> installments inserts
  \<open>N\<close> rows, numbered from 1, each of the amount divided by \<open>N\<close> and all with the
  group identifier drawn for the purchase.
\<close>

lemma recordCreditCardPurchase_rows:
  assumes "AccountRepository_findById E (full_creditCardAccountId data) = Some cardAcc"
      and "account_type cardAcc = CREDIT_CARD"
      and "\<forall>c. full_categoryId data = Some c \<and> c \<noteq> 0 \<longrightarrow> CategoryRepository_findById E c \<noteq> None"
  shows "recordCreditCardPurchase E data w =
     (Inr (map (installment_row data (uuidv4 E (trace w))
                  (totalAmount data / of_nat (full_totalInstallments data)))
             [1..<1 + full_totalInstallments data]),
      w\<lparr>trace := trace w
             @ map (\<lambda>j. CreditCardCreate
                           (installment_row data (uuidv4 E (trace w))
                              (totalAmount data / of_nat (full_totalInstallments data)) j))
                 [1..<1 + full_totalInstallments data]\<rparr>)"
  using assms
  by (auto simp: recordCreditCardPurchase_def create_installments_rows Let_def
           split: option.splits)

text \<open>Up to the 28th of a month, installment \<open>i\<close> falls \<open>i - 1\<close> months after the purchase.\<close>

lemma installmentDate_short_months:
  assumes "d \<le> 28"
  shows "installmentDate (Date y m d) i =
           Date (y + int ((m + (i - 1)) div 12)) ((m + (i - 1)) mod 12) d"
  using assms by (simp add: installmentDate_def setMonth_def daysInMonth_def Let_def)

text \<open>
  C6. A purchase of 1200 in 12 installments dated 31 January 2025 gives twelve rows of 100
  with one group identifier, but the second installment is dated 3 March: \<^verbatim>\<open>setMonth\<close>
  lets the 31st run over the end of February, so no installment falls in February and two
  fall in March.
\<close>

theorem installment_dates_overflow:
  "map (\<lambda>p. (installmentNumber p, date p, amount p, purchaseGroupId p))
     (projr (fst (recordCreditCardPurchase
        (answering ''intent'')
        \<lparr>full_creditCardAccountId = 3, full_date = Date 2025 0 31,
         full_description = ''Laptop'', totalAmount = 1200, full_currency = USD,
         full_categoryId = None, full_totalInstallments = 12\<rparr> initial_world)))
   = [(1, Date 2025 0 31, 100, ''group-1''), (2, Date 2025 2 3, 100, ''group-1''),
      (3, Date 2025 2 31, 100, ''group-1''), (4, Date 2025 4 1, 100, ''group-1''),
      (5, Date 2025 4 31, 100, ''group-1''), (6, Date 2025 6 1, 100, ''group-1''),
      (7, Date 2025 6 31, 100, ''group-1''), (8, Date 2025 7 31, 100, ''group-1''),
      (9, Date 2025 9 1, 100, ''group-1''), (10, Date 2025 9 31, 100, ''group-1''),
      (11, Date 2025 11 1, 100, ''group-1''), (12, Date 2025 11 31, 100, ''group-1'')]"
  by code_simp

subsection \<open>Saving a parsed transaction\<close>

lemma find_same_key:
  "find P xs = Some a \<Longrightarrow> find (\<lambda>x. f x = f a) xs \<noteq> None"
  by (induction xs) (auto split: if_splits)

lemma account_found_by_id:
  "AccountRepository_findByName E name = Some a \<Longrightarrow>
     AccountRepository_findById E (account_id a) \<noteq> None"
  by (auto simp: AccountRepository_findByName_def AccountRepository_findById_def
           split: nullable_string.splits dest: find_same_key [where f = account_id])

lemma category_found_by_id:
  "CategoryRepository_findByName E name = Some c \<Longrightarrow>
     CategoryRepository_findById E (category_id c) \<noteq> None"
  by (auto simp: CategoryRepository_findByName_def CategoryRepository_findById_def
           split: nullable_string.splits dest: find_same_key [where f = category_id])

lemma handleIncome_saves:
  assumes "resolved_account E (toAccount parsed)"
  shows "\<exists>row. handleIncome E parsed w = (Inr (SavedTransaction row), emit (TransactionCreate row) w)"
proof -
  from assms obtain a where a: "AccountRepository_findByName E (toAccount parsed) = Some a"
    by (auto simp: resolved_account_def)
  from account_found_by_id [OF a] obtain b where "AccountRepository_findById E (account_id a) = Some b"
    by auto
  then show ?thesis
    using a
    by (simp add: handleIncome_def recordIncome_def saved_transaction_def await_def
          TransactionRepository_create_def)
qed

lemma handleTransfer_saves:
  assumes "resolved_account E (fromAccount parsed)" and "resolved_account E (toAccount parsed)"
  shows "\<exists>row. handleTransfer E parsed w = (Inr (SavedTransaction row), emit (TransactionCreate row) w)"
proof -
  from assms obtain a b where a: "AccountRepository_findByName E (fromAccount parsed) = Some a"
      and b: "AccountRepository_findByName E (toAccount parsed) = Some b"
    by (auto simp: resolved_account_def)
  from account_found_by_id [OF a] account_found_by_id [OF b]
  obtain a' b' where "AccountRepository_findById E (account_id a) = Some a'"
      "AccountRepository_findById E (account_id b) = Some b'"
    by auto
  then show ?thesis
    using a b
    by (simp add: handleTransfer_def recordTransfer_def saved_transaction_def await_def
          TransactionRepository_create_def)
qed

lemma handleExpense_saves:
  assumes "resolved_account E (fromAccount parsed)" and "resolved_category E (category parsed)"
  shows "\<exists>row. handleExpense E parsed w = (Inr (SavedTransaction row), emit (TransactionCreate row) w)"
proof -
  from assms obtain a c where a: "AccountRepository_findByName E (fromAccount parsed) = Some a"
      and c: "CategoryRepository_findByName E (category parsed) = Some c"
    by (auto simp: resolved_account_def resolved_category_def)
  from account_found_by_id [OF a] category_found_by_id [OF c]
  obtain a' c' where "AccountRepository_findById E (account_id a) = Some a'"
      "CategoryRepository_findById E (category_id c) = Some c'"
    by auto
  then show ?thesis
    using a c
    by (simp add: handleExpense_def recordExpense_def saved_transaction_def await_def
          TransactionRepository_create_def)
qed

lemma handleCreditCardPayment_saves:
  assumes "resolved_account E (fromAccount parsed)" and "is_credit_card E (toAccount parsed)"
  shows "\<exists>row. handleCreditCardPayment E parsed w =
           (Inr (SavedTransaction row), emit (TransactionCreate row) w)"
proof -
  from assms obtain a b b' where a: "AccountRepository_findByName E (fromAccount parsed) = Some a"
      and b: "AccountRepository_findByName E (toAccount parsed) = Some b"
      and b': "AccountRepository_findById E (account_id b) = Some b'" "account_type b' = CREDIT_CARD"
    by (auto simp: resolved_account_def is_credit_card_def split: option.splits)
  from account_found_by_id [OF a]
  obtain a' where "AccountRepository_findById E (account_id a) = Some a'" by auto
  then show ?thesis
    using a b b'
    by (simp add: handleCreditCardPayment_def recordCreditCardPayment_def saved_transaction_def
          await_def TransactionRepository_create_def)
qed

lemma handleCreditCardPurchase_saves:
  assumes "is_credit_card E (card_name parsed)"
  shows "\<exists>rows. handleCreditCardPurchase E parsed w =
           (Inr (SavedInstallments rows), w\<lparr>trace := trace w @ map CreditCardCreate rows\<rparr>)
         \<and> length rows = installments_or_1 parsed"
proof -
  from assms obtain b b' where b: "AccountRepository_findByName E (card_name parsed) = Some b"
      and b': "AccountRepository_findById E (account_id b) = Some b'" "account_type b' = CREDIT_CARD"
    by (auto simp: is_credit_card_def split: option.splits)
  let ?cat = "if truthy_str (category parsed)
              then CategoryRepository_findByName E (category parsed) else None"
  let ?data = "\<lparr>full_creditCardAccountId = account_id b,
                full_date = new_Date E (parsed_date parsed),
                full_description = parsed_description parsed,
                totalAmount = parsed_amount parsed,
                full_currency = parsed_currency parsed,
                full_categoryId = map_option category_id ?cat,
                full_totalInstallments = installments_or_1 parsed\<rparr>"
  have cat: "\<forall>c. full_categoryId ?data = Some c \<and> c \<noteq> 0 \<longrightarrow> CategoryRepository_findById E c \<noteq> None"
    by (auto dest: category_found_by_id split: if_splits)
  have acc: "AccountRepository_findById E (full_creditCardAccountId ?data) = Some b'"
    using b' by simp
  have h: "handleCreditCardPurchase E parsed w =
             await (recordCreditCardPurchase E ?data w)
               (\<lambda>purchases w1. (Inr (SavedInstallments purchases), w1))"
    using b by (simp add: handleCreditCardPurchase_def Let_def)
  let ?rows = "map (installment_row ?data (uuidv4 E (trace w))
                      (totalAmount ?data / of_nat (full_totalInstallments ?data)))
                 [1..<1 + full_totalInstallments ?data]"
  have rec: "recordCreditCardPurchase E ?data w =
               (Inr ?rows, w\<lparr>trace := trace w @ map CreditCardCreate ?rows\<rparr>)"
    using recordCreditCardPurchase_rows [OF acc b'(2) cat, of w] by (simp only: map_map comp_def)
  have "handleCreditCardPurchase E parsed w =
          (Inr (SavedInstallments ?rows), w\<lparr>trace := trace w @ map CreditCardCreate ?rows\<rparr>)"
    by (simp only: h rec await_def prod.case sum.case)
  moreover have "length ?rows = installments_or_1 parsed" by simp
  ultimately show ?thesis by blast
qed

lemma is_credit_card_resolved:
  "is_credit_card E name \<Longrightarrow> AccountRepository_findByName E name \<noteq> None"
  by (auto simp: is_credit_card_def split: option.splits)

text \<open>
  With the references resolved and the card a credit card, saving inserts one row, or one
  row for each installment of a credit-card purchase.
\<close>

lemma save_parsed_persists:
  assumes "references_resolved E parsed" and "card_is_credit_card E parsed"
  shows "\<exists>result w1 msg.
           save_parsed E parsed w = (Inr result, w1)
         \<and> formatSuccessMessage (parsed_type parsed) result = Inr msg
         \<and> length (persisted w1) = length (persisted w)
             + (if parsed_type parsed = credit_card_purchase then installments_or_1 parsed else 1)"
proof (cases "parsed_type parsed")
  case income
  with assms handleIncome_saves [of E parsed w] show ?thesis
    by (auto simp: save_parsed_def references_resolved_def persisted_def emit_def
          formatSuccessMessage_def)
next
  case transfer
  with assms handleTransfer_saves [of E parsed w] show ?thesis
    by (auto simp: save_parsed_def references_resolved_def persisted_def emit_def
          formatSuccessMessage_def)
next
  case expense
  with assms handleExpense_saves [of E parsed w] show ?thesis
    by (auto simp: save_parsed_def references_resolved_def persisted_def emit_def
          formatSuccessMessage_def)
next
  case credit_card_payment
  with assms handleCreditCardPayment_saves [of E parsed w] show ?thesis
    by (auto simp: save_parsed_def references_resolved_def card_is_credit_card_def persisted_def
          emit_def formatSuccessMessage_def)
next
  case credit_card_purchase
  with assms have "is_credit_card E (card_name parsed)"
    by (simp add: card_is_credit_card_def)
  from handleCreditCardPurchase_saves [OF this, of w]
  obtain rows where rows: "handleCreditCardPurchase E parsed w =
           (Inr (SavedInstallments rows), w\<lparr>trace := trace w @ map CreditCardCreate rows\<rparr>)"
      "length rows = installments_or_1 parsed"
    by auto
  have "rows \<noteq> []" using rows(2) by (auto simp: installments_or_1_def split: if_splits)
  then obtain r rs where "rows = r # rs" by (cases rows) auto
  moreover have "filter is_create (map CreditCardCreate rows) = map CreditCardCreate rows"
    by (induction rows) auto
  ultimately show ?thesis
    using credit_card_purchase rows
    by (auto simp: save_parsed_def persisted_def formatSuccessMessage_def)
qed

subsection \<open>Names that are null or missing\<close>

text \<open>
  The schema keeps \<^verbatim>\<open>null\<close> apart from a missing key, and the handlers' error messages show
  which of the two the parser gave.
\<close>

lemma nullable_names:
  "z_nullable_optional z_string None = Some Undefined"
  "z_nullable_optional z_string (Some JNull) = Some Null"
  "z_nullable_optional z_string (Some (JStr ''Visa'')) = Some (Str ''Visa'')"
  "z_nullable_optional z_string (Some (JNum 1)) = None"
  by (simp_all add: z_nullable_optional_def z_string_def)

lemma handleIncome_without_account:
  "fst (handleIncome (answering ''intent'')
          \<lparr>parsed_type = income, parsed_description = ''Salary'', parsed_amount = 3000,
           fromAccount = Undefined, toAccount = Null, category = Undefined,
           parsed_currency = USD, parsed_date = ''2025-01-31'', installments = 1,
           fromAmount = None, toAmount = None, confidence = 90\<rparr> initial_world)
     = Inl (Error ''Account not found: null'')"
  "fst (handleIncome (answering ''intent'')
          \<lparr>parsed_type = income, parsed_description = ''Salary'', parsed_amount = 3000,
           fromAccount = Undefined, toAccount = Undefined, category = Undefined,
           parsed_currency = USD, parsed_date = ''2025-01-31'', installments = 1,
           fromAmount = None, toAmount = None, confidence = 90\<rparr> initial_world)
     = Inl (Error ''Account not found: undefined'')"
  by code_simp+

subsection \<open>Confidence gate of the expense handler\<close>

lemma positive_int_at_least_1:
  fixes n :: rat
  assumes "is_int n" and "0 < n"
  shows "1 \<le> n"
proof -
  have n: "n = of_int \<lfloor>n\<rfloor>" using assms(1) by (simp add: is_int_def)
  then have "(0::rat) < of_int \<lfloor>n\<rfloor>" using assms(2) by simp
  then have "1 \<le> \<lfloor>n\<rfloor>" by simp
  then have "(1::rat) \<le> of_int \<lfloor>n\<rfloor>" by (simp only: of_int_1_le_iff)
  then show ?thesis using n by simp
qed

lemma installments_field_positive:
  "z_default 1 (z_optional z_int_positive v) = Some n \<Longrightarrow> 0 < nat \<lfloor>n\<rfloor>"
  by (auto simp: z_default_def z_optional_def z_int_positive_def z_refine_def z_number_def
           split: option.splits json.splits if_splits intro: positive_int_at_least_1)

lemma ExpenseParserSchema_installments:
  assumes "ExpenseParserSchema j = Inr parsed"
  shows "0 < installments parsed"
proof -
  from assms obtain kvs n where "j = JObj kvs"
      "z_default 1 (z_optional z_int_positive (map_of kvs ''installments'')) = Some n"
      "installments parsed = nat \<lfloor>n\<rfloor>"
    by (auto simp: ExpenseParserSchema_def split: json.splits option.splits prod.splits)
  then show ?thesis using installments_field_positive by simp
qed

lemma extractStructured_validated:
  "extractStructured E t sysPrompt jsonSchema zodSchema w = (Inr v, w') \<Longrightarrow> \<exists>j. zodSchema j = Inr v"
  by (auto simp: extractStructured_def await_def Let_def split: prod.splits sum.splits)

lemma after_parse_low_confidence:
  "confidence parsed < 50 \<Longrightarrow>
     after_parse E parsed w = (Inr (), emit (Reply (NotConfident (confidence parsed))) w)"
  by (simp add: after_parse_def)

lemma after_parse_persists:
  assumes "50 \<le> confidence parsed"
      and "references_resolved E parsed" and "card_is_credit_card E parsed"
  shows "\<exists>w'. after_parse E parsed w = (Inr (), w')
       \<and> length (persisted w') = length (persisted w)
           + (if parsed_type parsed = credit_card_purchase then installments_or_1 parsed else 1)"
proof -
  have named: "parsed_type parsed = expense \<longrightarrow> truthy_str (fromAccount parsed)"
    using assms(2) by (auto simp: references_resolved_def resolved_account_def)
  from save_parsed_persists [OF assms(2,3), of w]
  obtain result w1 msg where
      "save_parsed E parsed w = (Inr result, w1)"
      "formatSuccessMessage (parsed_type parsed) result = Inr msg"
      "length (persisted w1) = length (persisted w)
         + (if parsed_type parsed = credit_card_purchase then installments_or_1 parsed else 1)"
    by blast
  then show ?thesis
    using assms(1) named
    by (auto simp: after_parse_def await_def persisted_def emit_def)
qed

text \<open>
  C5, as amended. Once the message has been parsed: with a confidence below 50 the handler
  only replies that it is not confident, and no row is inserted; with a confidence of at
  least 50, every required reference resolved and, for a credit-card payment or purchase,
  a target account that is a credit card, it inserts exactly one row, or one row for each
  installment of a credit-card purchase.
\<close>

theorem confidence_gate:
  assumes "messageText = Some msg" and "msg \<noteq> []"
      and "getPromptWithConfig E ''expense-parser'' (fallback_config getExpenseParserJSONSchema)
             None (emit ReplyWithChatAction w) = (Inr promptData, w1)"
      and "extractStructured E msg (prompt promptData)
             (''expense_parser'', schema_or (config promptData) getExpenseParserJSONSchema)
             ExpenseParserSchema w1 = (Inr parsed, w2)"
  shows "(confidence parsed < 50 \<longrightarrow>
            handleExpenseMessage E messageText w
              = emit (Reply (NotConfident (confidence parsed))) w2
          \<and> persisted (handleExpenseMessage E messageText w) = persisted w)
       \<and> (50 \<le> confidence parsed \<and> references_resolved E parsed \<and> card_is_credit_card E parsed
          \<longrightarrow> length (persisted (handleExpenseMessage E messageText w))
                = length (persisted w)
                  + (if parsed_type parsed = credit_card_purchase
                     then installments parsed else 1))"
proof -
  have "0 < installments parsed"
    using extractStructured_validated [OF assms(4)] ExpenseParserSchema_installments by blast
  then have count: "installments_or_1 parsed = installments parsed"
    by (simp add: installments_or_1_def)
  have p1: "persisted w1 = persisted w"
    using getPromptWithConfig_filter [of is_create E "''expense-parser''"
            "fallback_config getExpenseParserJSONSchema" None "emit ReplyWithChatAction w"]
          assms(3)
    by (simp add: persisted_def emit_def)
  have p2: "persisted w2 = persisted w"
    using extractStructured_filter [of is_create E msg "prompt promptData"
            "(''expense_parser'', schema_or (config promptData) getExpenseParserJSONSchema)"
            ExpenseParserSchema w1] assms(4) p1
    by (simp add: persisted_def)
  have body: "handleExpenseMessage_body E messageText w = after_parse E parsed w2"
    using assms by (simp add: handleExpenseMessage_body_def await_def Let_def)
  show ?thesis
  proof (intro conjI impI)
    assume low: "confidence parsed < 50"
    then show "handleExpenseMessage E messageText w
                 = emit (Reply (NotConfident (confidence parsed))) w2"
      by (simp add: handleExpenseMessage_def body after_parse_low_confidence try_catch_def)
    then show "persisted (handleExpenseMessage E messageText w) = persisted w"
      using p2 by (simp add: persisted_def emit_def)
  next
    assume "50 \<le> confidence parsed \<and> references_resolved E parsed \<and> card_is_credit_card E parsed"
    then obtain w' where "after_parse E parsed w2 = (Inr (), w')"
        "length (persisted w') = length (persisted w2)
           + (if parsed_type parsed = credit_card_purchase then installments_or_1 parsed else 1)"
      using after_parse_persists [of parsed E w2] by blast
    then show "length (persisted (handleExpenseMessage E messageText w))
                = length (persisted w)
                  + (if parsed_type parsed = credit_card_purchase
                     then installments parsed else 1)"
      using p2 count by (simp add: handleExpenseMessage_def body try_catch_def)
  qed
qed

theorem confidence_gate_witness:
  "fst (extractStructured
          (example_env True (\<lambda>n. Inr (example_store n)) (\<lambda>r. says ''unsure''))
          ''Something about money'' ''Answer in JSON.''
          (''expense_parser'', getExpenseParserJSONSchema) ExpenseParserSchema
          (snd (getPromptWithConfig
                  (example_env True (\<lambda>n. Inr (example_store n)) (\<lambda>r. says ''unsure''))
                  ''expense-parser'' (fallback_config getExpenseParserJSONSchema) None
                  (emit ReplyWithChatAction initial_world))))
     = Inr \<lparr>parsed_type = expense, parsed_description = ''Something'', parsed_amount = 50,
            fromAccount = Str ''Main Checking'', toAccount = Undefined,
            category = Str ''Food & Groceries'', parsed_currency = USD,
            parsed_date = ''2025-01-31'', installments = 1, fromAmount = None, toAmount = None,
            confidence = 20\<rparr>
   \<and> persisted (handleExpenseMessage
          (example_env True (\<lambda>n. Inr (example_store n)) (\<lambda>r. says ''unsure''))
          (Some ''Something about money'') initial_world) = []
   \<and> references_resolved
          (example_env True (\<lambda>n. Inr (example_store n)) (\<lambda>r. says ''groceries''))
          \<lparr>parsed_type = expense, parsed_description = ''Groceries'', parsed_amount = 50,
           fromAccount = Str ''Main Checking'', toAccount = Undefined,
           category = Str ''Food & Groceries'', parsed_currency = USD,
           parsed_date = ''2025-01-31'', installments = 1, fromAmount = None, toAmount = None,
           confidence = 90\<rparr>
   \<and> length (persisted (handleExpenseMessage
          (example_env True (\<lambda>n. Inr (example_store n)) (\<lambda>r. says ''groceries''))
          (Some ''Spent $50 on groceries'') initial_world)) = 1
   \<and> references_resolved
          (example_env True (\<lambda>n. Inr (example_store n)) (\<lambda>r. says ''laptop''))
          \<lparr>parsed_type = credit_card_purchase, parsed_description = ''Laptop'',
           parsed_amount = 1200, fromAccount = Null, toAccount = Str ''Visa'',
           category = Undefined, parsed_currency = USD, parsed_date = ''2025-01-15'',
           installments = 3, fromAmount = None, toAmount = None, confidence = 95\<rparr>
   \<and> card_is_credit_card
          (example_env True (\<lambda>n. Inr (example_store n)) (\<lambda>r. says ''laptop''))
          \<lparr>parsed_type = credit_card_purchase, parsed_description = ''Laptop'',
           parsed_amount = 1200, fromAccount = Null, toAccount = Str ''Visa'',
           category = Undefined, parsed_currency = USD, parsed_date = ''2025-01-15'',
           installments = 3, fromAmount = None, toAmount = None, confidence = 95\<rparr>
   \<and> length (persisted (handleExpenseMessage
          (example_env True (\<lambda>n. Inr (example_store n)) (\<lambda>r. says ''laptop''))
          (Some ''Bought a laptop for $1200 in 3 installments'') initial_world)) = 3"
proof -
  let ?laptop = "\<lparr>parsed_type = credit_card_purchase, parsed_description = ''Laptop'',
           parsed_amount = 1200, fromAccount = Null, toAccount = Str ''Visa'',
           category = Undefined, parsed_currency = USD, parsed_date = ''2025-01-15'',
           installments = 3, fromAmount = None, toAmount = None, confidence = 95\<rparr>"
  let ?E = "\<lambda>answer. example_env True (\<lambda>n. Inr (example_store n)) (\<lambda>r. says answer)"
  let ?fb = "fallback_config getExpenseParserJSONSchema"
  let ?pd = "\<lparr>prompt = ''Answer in JSON.'', config = ?fb\<rparr>"
  let ?gp = "\<lambda>answer. getPromptWithConfig (?E answer) ''expense-parser'' ?fb None
                        (emit ReplyWithChatAction initial_world)"
  let ?ex = "\<lambda>answer m. extractStructured (?E answer) m (prompt ?pd)
                 (''expense_parser'', schema_or (config ?pd) getExpenseParserJSONSchema)
                 ExpenseParserSchema (snd (?gp answer))"
  let ?unsure = "\<lparr>parsed_type = expense, parsed_description = ''Something'', parsed_amount = 50,
            fromAccount = Str ''Main Checking'', toAccount = Undefined,
            category = Str ''Food & Groceries'', parsed_currency = USD,
            parsed_date = ''2025-01-31'', installments = 1, fromAmount = None, toAmount = None,
            confidence = 20\<rparr>"
  let ?groceries = "\<lparr>parsed_type = expense, parsed_description = ''Groceries'', parsed_amount = 50,
           fromAccount = Str ''Main Checking'', toAccount = Undefined,
           category = Str ''Food & Groceries'', parsed_currency = USD,
           parsed_date = ''2025-01-31'', installments = 1, fromAmount = None, toAmount = None,
           confidence = 90\<rparr>"
  have "fst (?gp ''unsure'') = Inr ?pd" by code_simp
  then have gp_u: "?gp ''unsure'' = (Inr ?pd, snd (?gp ''unsure''))" by (rule run_result)
  have ex_u1: "fst (?ex ''unsure'' ''Something about money'') = Inr ?unsure" by code_simp
  then have ex_u: "?ex ''unsure'' ''Something about money''
                     = (Inr ?unsure, snd (?ex ''unsure'' ''Something about money''))"
    by (rule run_result)
  have low: "confidence ?unsure < 50" by simp
  have u: "persisted (handleExpenseMessage (?E ''unsure'') (Some ''Something about money'')
             initial_world) = []"
    using confidence_gate [OF refl _ gp_u ex_u, THEN conjunct1, rule_format, OF _ low, THEN conjunct2]
    by (simp add: persisted_def initial_world_def)

  have "fst (?gp ''groceries'') = Inr ?pd" by code_simp
  then have gp_g: "?gp ''groceries'' = (Inr ?pd, snd (?gp ''groceries''))" by (rule run_result)
  have "fst (?ex ''groceries'' ''Spent $50 on groceries'') = Inr ?groceries" by code_simp
  then have ex_g: "?ex ''groceries'' ''Spent $50 on groceries''
                     = (Inr ?groceries, snd (?ex ''groceries'' ''Spent $50 on groceries''))"
    by (rule run_result)
  have res: "references_resolved (?E ''groceries'') ?groceries" by code_simp
  have card: "card_is_credit_card (?E ''groceries'') ?groceries"
    by (simp add: card_is_credit_card_def)
  have high: "50 \<le> confidence ?groceries \<and> references_resolved (?E ''groceries'') ?groceries
              \<and> card_is_credit_card (?E ''groceries'') ?groceries"
    using res card by simp
  have g: "length (persisted (handleExpenseMessage (?E ''groceries'')
             (Some ''Spent $50 on groceries'') initial_world)) = 1"
    using confidence_gate [OF refl _ gp_g ex_g, THEN conjunct2, rule_format, OF _ high]
    by (simp add: persisted_def initial_world_def)

  have first: "fst (extractStructured (?E ''unsure'') ''Something about money'' ''Answer in JSON.''
                      (''expense_parser'', getExpenseParserJSONSchema) ExpenseParserSchema
                      (snd (?gp ''unsure''))) = Inr ?unsure"
    by code_simp
  have "fst (?gp ''laptop'') = Inr ?pd" by code_simp
  then have gp_l: "?gp ''laptop'' = (Inr ?pd, snd (?gp ''laptop''))" by (rule run_result)
  have "fst (?ex ''laptop'' ''Bought a laptop for $1200 in 3 installments'') = Inr ?laptop"
    by code_simp
  then have ex_l: "?ex ''laptop'' ''Bought a laptop for $1200 in 3 installments''
                     = (Inr ?laptop,
                        snd (?ex ''laptop'' ''Bought a laptop for $1200 in 3 installments''))"
    by (rule run_result)
  have res_l: "references_resolved (?E ''laptop'') ?laptop" by code_simp
  have card_l: "card_is_credit_card (?E ''laptop'') ?laptop" by code_simp
  have high_l: "50 \<le> confidence ?laptop \<and> references_resolved (?E ''laptop'') ?laptop
              \<and> card_is_credit_card (?E ''laptop'') ?laptop"
    using res_l card_l by simp
  have l: "length (persisted (handleExpenseMessage (?E ''laptop'')
             (Some ''Bought a laptop for $1200 in 3 installments'') initial_world)) = 3"
    using confidence_gate [OF refl _ gp_l ex_l, THEN conjunct2, rule_format, OF _ high_l]
    by (simp add: persisted_def initial_world_def)

  from first u res g res_l card_l l show ?thesis by blast
qed

text \<open>
  C5, as stated, fails: a credit-card payment parsed with confidence 90 whose two accounts
  are found, the target being a bank account, inserts nothing; the service refuses the
  account and the handler replies with the error.
\<close>

theorem confidence_gate_counterexample:
  "fst (extractStructured
          (answering ''payment'')
          ''Paid 200 from Main Checking to Savings'' ''Answer in JSON.''
          (''expense_parser'', getExpenseParserJSONSchema) ExpenseParserSchema
          (snd (getPromptWithConfig
                  (answering ''payment'')
                  ''expense-parser'' (fallback_config getExpenseParserJSONSchema) None
                  (emit ReplyWithChatAction initial_world))))
     = Inr \<lparr>parsed_type = credit_card_payment, parsed_description = ''Card payment'',
            parsed_amount = 200, fromAccount = Str ''Main Checking'',
            toAccount = Str ''Savings'', category = Undefined, parsed_currency = USD,
            parsed_date = ''2025-01-31'', installments = 1, fromAmount = None, toAmount = None,
            confidence = 90\<rparr>
   \<and> references_resolved
          (answering ''payment'')
          \<lparr>parsed_type = credit_card_payment, parsed_description = ''Card payment'',
           parsed_amount = 200, fromAccount = Str ''Main Checking'',
           toAccount = Str ''Savings'', category = Undefined, parsed_currency = USD,
           parsed_date = ''2025-01-31'', installments = 1, fromAmount = None, toAmount = None,
           confidence = 90\<rparr>
   \<and> persisted (handleExpenseMessage
          (answering ''payment'')
          (Some ''Paid 200 from Main Checking to Savings'') initial_world) = []
   \<and> last (trace (handleExpenseMessage
          (answering ''payment'')
          (Some ''Paid 200 from Main Checking to Savings'') initial_world))
       = Reply (ErrorProcessing ''Account 2 is not a credit card'')"
  by code_simp

end
